theory Spec2Isabelle
  imports Complex_Main "HOL-Library.Signed_Division"
begin

section \<open>GtkPopover: positioning and transition engine (gtk/gtkpopover.c)\<close>

text \<open>
  A shallow embedding of the parts of \<^verbatim>\<open>gtk/gtkpopover.c\<close> that decide where a
  popover is placed, how its arrow is laid out and how its show/hide transition runs.
  C \<^verbatim>\<open>gint\<close> values are modelled as \<open>int\<close>: the quantities are pixel coordinates
  and sizes, signed overflow is undefined in C, and theorems that depend on the
  \<^verbatim>\<open>gint\<close> range state the range as a hypothesis. C \<^verbatim>\<open>gdouble\<close> values are
  modelled as \<open>real\<close>.
\<close>

subsection \<open>Data model\<close>

text \<open>
  \<^verbatim>\<open>GtkPositionType\<close> is declared in GTK's public header \<^verbatim>\<open>gtkenums.h\<close>, which is
  not among the sources, as \<^verbatim>\<open>GTK_POS_LEFT, GTK_POS_RIGHT, GTK_POS_TOP,
  GTK_POS_BOTTOM\<close> (values 0 to 3). \<^verbatim>\<open>gtkpopover.c\<close> relies on that numbering:
  \<^verbatim>\<open>gtk_popover_set_position\<close> accepts exactly
  \<^verbatim>\<open>position >= GTK_POS_LEFT && position <= GTK_POS_BOTTOM\<close>, so LEFT is the least
  and BOTTOM the greatest value; the fields holding a position are two bits wide; and
  \<^verbatim>\<open>gtk_popover_update_position\<close> indexes \<^verbatim>\<open>overshoot[4]\<close> with positions and
  runs \<^verbatim>\<open>i\<close> from 0 to 3 over them, starting from \<^verbatim>\<open>pos = 0\<close>.
\<close>

datatype GtkPositionType = GTK_POS_LEFT | GTK_POS_RIGHT | GTK_POS_TOP | GTK_POS_BOTTOM

text \<open>The integer value of a position, and the position of an integer in 0..3.\<close>

fun position_value :: "GtkPositionType \<Rightarrow> nat" where
  "position_value GTK_POS_LEFT = 0"
| "position_value GTK_POS_RIGHT = 1"
| "position_value GTK_POS_TOP = 2"
| "position_value GTK_POS_BOTTOM = 3"

definition position_of_value :: "nat \<Rightarrow> GtkPositionType" where
  "position_of_value i =
     (if i = 0 then GTK_POS_LEFT else if i = 1 then GTK_POS_RIGHT
      else if i = 2 then GTK_POS_TOP else GTK_POS_BOTTOM)"

datatype GtkPopoverConstraint = GTK_POPOVER_CONSTRAINT_NONE | GTK_POPOVER_CONSTRAINT_WINDOW

datatype GtkTextDirection = GTK_TEXT_DIR_NONE | GTK_TEXT_DIR_LTR | GTK_TEXT_DIR_RTL

text \<open>The anonymous enum \<^verbatim>\<open>STATE_SHOWING, STATE_SHOWN, STATE_HIDING, STATE_HIDDEN\<close>.\<close>

datatype popover_state = STATE_SHOWING | STATE_SHOWN | STATE_HIDING | STATE_HIDDEN

text \<open>
  \<^verbatim>\<open>GdkRectangle\<close> (\<^verbatim>\<open>x, y, width, height\<close>), \<^verbatim>\<open>GtkBorder\<close>
  (\<^verbatim>\<open>left, right, top, bottom\<close>) and \<^verbatim>\<open>GtkRequisition\<close> (\<^verbatim>\<open>width, height\<close>).
  The fields carry a prefix because a record field is a constant of the theory.
\<close>

record GdkRectangle =
  rect_x :: int
  rect_y :: int
  rect_width :: int
  rect_height :: int

record GtkBorder =
  border_left :: int
  border_right :: int
  border_top :: int
  border_bottom :: int

record GtkRequisition =
  req_width :: int
  req_height :: int

text \<open>\<^verbatim>\<open>GdkRectangle rect = { 0 };\<close>\<close>

definition zero_rect :: GdkRectangle where
  "zero_rect = \<lparr>rect_x = 0, rect_y = 0, rect_width = 0, rect_height = 0\<rparr>"

text \<open>
  A widget other than the popover, as far as this file looks at one: its own allocation
  (\<^verbatim>\<open>gtk_widget_get_own_allocation\<close>), whether it is drawable and whether it is a
  \<^verbatim>\<open>GtkEntry\<close>.
\<close>

record GtkWidget =
  widget_name :: nat
  own_allocation :: GdkRectangle
  is_drawable :: bool
  is_entry :: bool

text \<open>What holds the keyboard focus of the toplevel.\<close>

datatype focus_target = FOCUS_NONE | FOCUS_POPOVER | FOCUS_WINDOW | FOCUS_WIDGET GtkWidget

text \<open>
  The toplevel \<^verbatim>\<open>GtkWindow\<close> the popover lives in: its allocation, its shadow width
  (\<^verbatim>\<open>_gtk_window_get_shadow_width\<close>), its focus widget, and the position last handed to
  \<^verbatim>\<open>_gtk_window_set_popover_position\<close>. \<open>window_focus\<close> is the widget last given to
  \<^verbatim>\<open>gtk_window_set_focus\<close> or \<^verbatim>\<open>gtk_widget_grab_focus\<close>; which of its descendants
  ends up with the focus is decided outside this file.
\<close>

record GtkWindow =
  window_alloc :: GdkRectangle
  window_shadow :: GtkBorder
  window_focus :: focus_target
  popover_position :: "(GtkPositionType \<times> GdkRectangle) option"

text \<open>
  The region last passed to \<^verbatim>\<open>gdk_window_input_shape_combine_region\<close>:
  \<^verbatim>\<open>NULL\<close> (no input shape, input is accepted everywhere) or the empty region made by
  \<^verbatim>\<open>cairo_region_create ()\<close>.
\<close>

datatype input_region = REGION_NULL | REGION_EMPTY

datatype GtkProgressState =
  GTK_PROGRESS_STATE_BEFORE | GTK_PROGRESS_STATE_DURING | GTK_PROGRESS_STATE_AFTER

text \<open>
  Modelled from the spec: \<^verbatim>\<open>GtkProgressTracker\<close> and its functions live in
  \<^verbatim>\<open>gtkprogresstracker.c\<close>, which is not among the sources. The spec says: "advance a
  monotonic progress tracker by elapsed time; compute eased progress t in [0,1] using a
  cubic ease-out curve", and "on progress reaching 1.0 (state reports after-end)".
  \<^verbatim>\<open>gtk_progress_tracker_start\<close> is not given a time (see
  \<^verbatim>\<open>gtk_popover_start_transition\<close>), so the tracker has no time base until it is
  advanced for the first time.
\<close>

record GtkProgressTracker =
  is_running :: bool
  last_frame_time :: "int option"
  duration :: int
  iteration :: real
  iteration_count :: real

text \<open>
  The popover: the fields of \<^verbatim>\<open>struct _GtkPopoverPrivate\<close> that the modelled functions
  read or write, then the state the popover has as a \<^verbatim>\<open>GtkWidget\<close>
  (\<open>widget_visible\<close>, \<open>realized\<close>, \<open>mapped\<close>, \<open>opacity\<close>), then what the calls into
  the toolkit leave behind: the number of \<^verbatim>\<open>closed\<close> emissions, whether the popover
  holds the grab (\<^verbatim>\<open>gtk_grab_add\<close>, \<^verbatim>\<open>gtk_grab_remove\<close>), whether its handlers are
  connected to the window, the input shape of its \<^verbatim>\<open>GdkWindow\<close>, the number of
  \<^verbatim>\<open>gtk_popover_update_shape\<close> calls, the identifiers of the tick callbacks
  registered with \<^verbatim>\<open>gtk_widget_add_tick_callback\<close> and the last identifier handed
  out. A widget pointer that may point at the popover or the toplevel is a
  \<open>focus_target\<close>, \<open>FOCUS_NONE\<close> being \<^verbatim>\<open>NULL\<close>.
\<close>

record GtkPopover =
  widget :: "GtkWidget option"
  window :: "GtkWindow option"
  prev_focus_widget :: focus_target
  pointing_to :: GdkRectangle
  constraint :: GtkPopoverConstraint
  tracker :: GtkProgressTracker
  has_pointing_to :: bool
  preferred_position :: GtkPositionType
  final_position :: GtkPositionType
  current_position :: GtkPositionType
  modal :: bool
  state :: popover_state
  visible :: bool
  first_frame_skipped :: bool
  transition_diff :: int
  tick_id :: nat
  widget_visible :: bool
  realized :: bool
  mapped :: bool
  opacity :: real
  closed_emitted :: nat
  has_grab :: bool
  window_handlers :: bool
  input_shape :: input_region
  shape_updates :: nat
  tick_callbacks :: "nat list"
  tick_counter :: nat

text \<open>
  What the functions ask of the rest of the toolkit and the platform. \<open>wayland_display\<close>
  stands for "compiled with \<^verbatim>\<open>GDK_WINDOWING_WAYLAND\<close> and
  \<^verbatim>\<open>GDK_IS_WAYLAND_DISPLAY\<close> holds". \<open>translate_to_window\<close> and
  \<open>translate_to_popover\<close> are \<^verbatim>\<open>gtk_widget_translate_coordinates\<close> from the anchor
  widget to the toplevel and to the popover (any function: the call leaves the point as it
  is when it fails). \<open>popover_origin\<close> is \<^verbatim>\<open>gdk_window_get_origin\<close> of the popover's
  window. \<open>popover_width\<close> and \<open>popover_height\<close> are \<^verbatim>\<open>gtk_widget_get_width\<close> and
  \<^verbatim>\<open>gtk_widget_get_height\<close>; \<open>contents_border\<close> and \<open>border_radius\<close> come from the
  style context of the contents widget. \<open>parent_mapped\<close> says whether showing the
  popover maps it (its parent is mapped and it is child-visible).
\<close>

record GtkEnv =
  direction :: GtkTextDirection
  wayland_display :: bool
  enable_animations :: bool
  preferred_size :: GtkRequisition
  translate_to_window :: "int \<times> int \<Rightarrow> int \<times> int"
  translate_to_popover :: "int \<times> int \<Rightarrow> int \<times> int"
  popover_origin :: "int \<times> int"
  popover_width :: int
  popover_height :: int
  contents_border :: GtkBorder
  border_radius :: int
  parent_mapped :: bool

subsection \<open>Constants and macros\<close>

definition TAIL_GAP_WIDTH :: int where "TAIL_GAP_WIDTH = 24"
definition TAIL_HEIGHT :: int where "TAIL_HEIGHT = 12"
definition TRANSITION_DIFF :: int where "TRANSITION_DIFF = 20"
definition TRANSITION_DURATION :: int where "TRANSITION_DURATION = 150 * 1000"
definition G_MAXINT :: int where "G_MAXINT = 2147483647"

definition POS_IS_VERTICAL :: "GtkPositionType \<Rightarrow> bool" where
  "POS_IS_VERTICAL p \<longleftrightarrow> p = GTK_POS_TOP \<or> p = GTK_POS_BOTTOM"

text \<open>
  GLib's \<^verbatim>\<open>CLAMP (x, low, high)\<close>:
  \<^verbatim>\<open>(((x) > (high)) ? (high) : (((x) < (low)) ? (low) : (x)))\<close>.
\<close>

definition CLAMP :: "int \<Rightarrow> int \<Rightarrow> int \<Rightarrow> int" where
  "CLAMP v low high = (if v > high then high else if v < low then low else v)"

subsection \<open>Pointing rectangle\<close>

text \<open>
  \<^verbatim>\<open>gtk_popover_update_pointing_to\<close>: the argument is a pointer, \<open>None\<close> is
  \<^verbatim>\<open>NULL\<close>.
\<close>

definition gtk_popover_update_pointing_to :: "GtkPopover \<Rightarrow> GdkRectangle option \<Rightarrow> GtkPopover" where
  "gtk_popover_update_pointing_to p r =
     (case r of
        Some rect \<Rightarrow> p\<lparr>pointing_to := rect, has_pointing_to := True\<rparr>
      | None \<Rightarrow> p\<lparr>has_pointing_to := False\<rparr>)"

text \<open>
  \<^verbatim>\<open>gtk_popover_get_pointing_to\<close>: the second argument is the caller's rectangle
  before the call; the result is the return value and the caller's rectangle after it.
\<close>

definition gtk_popover_get_pointing_to :: "GtkPopover \<Rightarrow> GdkRectangle \<Rightarrow> bool \<times> GdkRectangle" where
  "gtk_popover_get_pointing_to p rect =
     (has_pointing_to p,
      if has_pointing_to p then pointing_to p
      else (case widget p of Some w \<Rightarrow> own_allocation w | None \<Rightarrow> rect))"

subsection \<open>Side resolution\<close>

definition get_effective_position :: "GtkEnv \<Rightarrow> GtkPositionType \<Rightarrow> GtkPositionType" where
  "get_effective_position env pos =
     (if direction env = GTK_TEXT_DIR_RTL then
        (if pos = GTK_POS_LEFT then GTK_POS_RIGHT
         else if pos = GTK_POS_RIGHT then GTK_POS_LEFT
         else pos)
      else pos)"

fun opposite_position :: "GtkPositionType \<Rightarrow> GtkPositionType" where
  "opposite_position GTK_POS_LEFT = GTK_POS_RIGHT"
| "opposite_position GTK_POS_RIGHT = GTK_POS_LEFT"
| "opposite_position GTK_POS_TOP = GTK_POS_BOTTOM"
| "opposite_position GTK_POS_BOTTOM = GTK_POS_TOP"

text \<open>The four entries of the array \<^verbatim>\<open>overshoot[4]\<close>, indexed by position.\<close>

fun overshoot :: "GtkRequisition \<Rightarrow> GdkRectangle \<Rightarrow> GdkRectangle \<Rightarrow> GtkBorder \<Rightarrow> GtkPositionType \<Rightarrow> int" where
  "overshoot req rect walloc shadow GTK_POS_TOP =
     req_height req - rect_y rect + border_top shadow"
| "overshoot req rect walloc shadow GTK_POS_BOTTOM =
     rect_y rect + rect_height rect + req_height req - rect_height walloc + border_bottom shadow"
| "overshoot req rect walloc shadow GTK_POS_LEFT =
     req_width req - rect_x rect + border_left shadow"
| "overshoot req rect walloc shadow GTK_POS_RIGHT =
     rect_x rect + rect_width rect + req_width req - rect_width walloc + border_right shadow"

text \<open>
  The loop \<^verbatim>\<open>for (i = 0; i < 4; i++)\<close> of \<^verbatim>\<open>gtk_popover_update_position\<close>, from
  \<open>i\<close> up to 3, on the pair \<^verbatim>\<open>(pos, best)\<close>.
\<close>

function best_position_loop ::
  "GtkEnv \<Rightarrow> (GtkPositionType \<Rightarrow> int) \<Rightarrow> nat \<Rightarrow> GtkPositionType \<times> int \<Rightarrow> GtkPositionType \<times> int" where
  "best_position_loop env ov i (pos, best) =
     (if i < 4 then
        (let j = get_effective_position env (position_of_value i)
         in if ov j < best
            then best_position_loop env ov (i + 1) (position_of_value i, ov j)
            else best_position_loop env ov (i + 1) (pos, best))
      else (pos, best))"
  by pat_completeness auto
termination
  by (relation "measure (\<lambda>(env, ov, i, pb). 4 - i)") auto

declare best_position_loop.simps [simp del]

text \<open>
  The choice of \<^verbatim>\<open>priv->final_position\<close> in \<^verbatim>\<open>gtk_popover_update_position\<close>, given
  the overshoot array.
\<close>

definition resolve_position ::
  "GtkEnv \<Rightarrow> GtkPopoverConstraint \<Rightarrow> GtkPositionType \<Rightarrow> (GtkPositionType \<Rightarrow> int) \<Rightarrow> GtkPositionType" where
  "resolve_position env c preferred ov =
     (let pos = get_effective_position env preferred
      in if wayland_display env \<and> c = GTK_POPOVER_CONSTRAINT_NONE then preferred
         else if ov pos \<le> 0 then preferred
         else if ov (opposite_position pos) \<le> 0 then opposite_position preferred
         else fst (best_position_loop env ov 0 (GTK_POS_LEFT, G_MAXINT)))"

text \<open>The anchor rectangle in window coordinates, as \<^verbatim>\<open>gtk_popover_update_position\<close> computes it.\<close>

definition anchor_rect_in_window :: "GtkEnv \<Rightarrow> GtkPopover \<Rightarrow> GdkRectangle" where
  "anchor_rect_in_window env p =
     (let rect = snd (gtk_popover_get_pointing_to p zero_rect);
          xy = translate_to_window env (rect_x rect, rect_y rect)
      in rect\<lparr>rect_x := fst xy, rect_y := snd xy\<rparr>)"

text \<open>The \<^verbatim>\<open>switch (priv->final_position)\<close> that moves the rectangle by \<^verbatim>\<open>transition_diff\<close>.\<close>

fun apply_transition_diff :: "GtkPositionType \<Rightarrow> int \<Rightarrow> GdkRectangle \<Rightarrow> GdkRectangle" where
  "apply_transition_diff GTK_POS_TOP d rect = rect\<lparr>rect_y := rect_y rect + d\<rparr>"
| "apply_transition_diff GTK_POS_BOTTOM d rect = rect\<lparr>rect_y := rect_y rect - d\<rparr>"
| "apply_transition_diff GTK_POS_LEFT d rect = rect\<lparr>rect_x := rect_x rect + d\<rparr>"
| "apply_transition_diff GTK_POS_RIGHT d rect = rect\<lparr>rect_x := rect_x rect - d\<rparr>"

text \<open>
  \<^verbatim>\<open>gtk_popover_update_position\<close>. Without a window it returns at once. The shape
  is redrawn by \<^verbatim>\<open>gtk_popover_update_shape\<close> when the side changed and the popover is
  drawable (visible and mapped); the drawing itself is not modelled, only counted.
  \<^verbatim>\<open>_gtk_popover_update_child_visible\<close> touches no modelled field.
\<close>

definition gtk_popover_update_position :: "GtkEnv \<Rightarrow> GtkPopover \<Rightarrow> GtkPopover" where
  "gtk_popover_update_position env p =
     (case window p of
        None \<Rightarrow> p
      | Some w \<Rightarrow>
          (let req = preferred_size env;
               rect = anchor_rect_in_window env p;
               ov = overshoot req rect (window_alloc w) (window_shadow w);
               final = resolve_position env (constraint p) (preferred_position p) ov;
               rect' = apply_transition_diff final (transition_diff p) rect;
               w' = w\<lparr>popover_position := Some (final, rect')\<rparr>;
               p1 = p\<lparr>final_position := final, window := Some w'\<rparr>
           in if final \<noteq> current_position p
              then p1\<lparr>shape_updates :=
                         (if widget_visible p \<and> mapped p then shape_updates p + 1 else shape_updates p),
                      current_position := final\<rparr>
              else p1))"

subsection \<open>Arrow geometry\<close>

record gap_coords =
  initial_x :: int
  initial_y :: int
  tip_x :: int
  tip_y :: int
  final_x :: int
  final_y :: int

text \<open>
  The pointing rectangle moved into the popover's coordinates, as
  \<^verbatim>\<open>gtk_popover_get_gap_coords\<close> does it (through the toplevel and the window
  origin on Wayland, directly otherwise).
\<close>

definition anchor_rect_in_popover :: "GtkEnv \<Rightarrow> GtkPopover \<Rightarrow> GdkRectangle" where
  "anchor_rect_in_popover env p =
     (let rect = snd (gtk_popover_get_pointing_to p zero_rect)
      in if wayland_display env then
           (let xy = translate_to_window env (rect_x rect, rect_y rect)
            in rect\<lparr>rect_x := fst xy - fst (popover_origin env),
                    rect_y := snd xy - snd (popover_origin env)\<rparr>)
         else
           (let xy = translate_to_popover env (rect_x rect, rect_y rect)
            in rect\<lparr>rect_x := fst xy, rect_y := snd xy\<rparr>))"

text \<open>
  The pair \<^verbatim>\<open>(base, tip)\<close> of \<^verbatim>\<open>gtk_popover_get_gap_coords\<close>. The final
  \<^verbatim>\<open>g_assert_not_reached ()\<close> has no case: the four positions are covered.
\<close>

definition gap_base_tip :: "GtkEnv \<Rightarrow> GtkPositionType \<Rightarrow> int \<times> int" where
  "gap_base_tip env pos =
     (if pos = GTK_POS_BOTTOM \<or> pos = GTK_POS_RIGHT then
        (0 + TAIL_HEIGHT + border_top (contents_border env), 0)
      else if pos = GTK_POS_TOP then
        (let base = popover_height env - border_bottom (contents_border env) - TAIL_HEIGHT
         in (base, base + TAIL_HEIGHT))
      else
        (let base = popover_width env - border_right (contents_border env) - TAIL_HEIGHT
         in (base, base + TAIL_HEIGHT)))"

text \<open>
  \<^verbatim>\<open>gtk_popover_get_gap_coords\<close>. C's \<^verbatim>\<open>/\<close> on \<^verbatim>\<open>gint\<close> truncates towards
  zero, which is \<open>sdiv\<close>.
\<close>

definition gtk_popover_get_gap_coords :: "GtkEnv \<Rightarrow> GtkPopover \<Rightarrow> gap_coords" where
  "gtk_popover_get_gap_coords env p =
     (let rect = anchor_rect_in_popover env p;
          pos = get_effective_position env (final_position p);
          base = fst (gap_base_tip env pos);
          tip = snd (gap_base_tip env pos)
      in if POS_IS_VERTICAL pos then
           (let tip_pos = rect_x rect + (rect_width rect sdiv 2)
            in \<lparr>initial_x = CLAMP (tip_pos - TAIL_GAP_WIDTH sdiv 2) (border_radius env)
                               (popover_width env - TAIL_GAP_WIDTH - border_radius env),
                initial_y = base,
                tip_x = CLAMP tip_pos 0 (popover_width env),
                tip_y = tip,
                final_x = CLAMP (tip_pos + TAIL_GAP_WIDTH sdiv 2) (border_radius env + TAIL_GAP_WIDTH)
                             (popover_width env - border_radius env),
                final_y = base\<rparr>)
         else
           (let tip_pos = rect_y rect + (rect_height rect sdiv 2)
            in \<lparr>initial_x = base,
                initial_y = CLAMP (tip_pos - TAIL_GAP_WIDTH sdiv 2) (border_radius env)
                               (popover_height env - TAIL_GAP_WIDTH - border_radius env),
                tip_x = tip,
                tip_y = CLAMP tip_pos 0 (popover_height env),
                final_x = base,
                final_y = CLAMP (tip_pos + TAIL_GAP_WIDTH sdiv 2) (border_radius env + TAIL_GAP_WIDTH)
                             (popover_height env - border_radius env)\<rparr>))"

subsection \<open>Progress tracker\<close>

text \<open>
  Modelled from the spec: \<^verbatim>\<open>gtk_progress_tracker_start\<close>,
  \<^verbatim>\<open>gtk_progress_tracker_advance_frame\<close>, \<^verbatim>\<open>gtk_progress_tracker_finish\<close>,
  \<^verbatim>\<open>gtk_progress_tracker_get_state\<close> and
  \<^verbatim>\<open>gtk_progress_tracker_get_ease_out_cubic\<close> of \<^verbatim>\<open>gtkprogresstracker.c\<close>, which
  is not among the sources. A started tracker is at progress 0 (the delay passed at the
  only call is 0). Advancing adds the elapsed time over the duration; the first advance
  only records the frame time; a frame time before the recorded one is ignored ("a
  monotonic progress tracker"). The state is after-end once the iteration count (1.0 at
  the only call) is reached or the tracker was finished. The eased progress is the cubic
  ease-out of the progress within [0,1].
\<close>

definition gtk_progress_tracker_start :: "int \<Rightarrow> real \<Rightarrow> GtkProgressTracker" where
  "gtk_progress_tracker_start d n =
     \<lparr>is_running = True, last_frame_time = None, duration = d, iteration = 0,
      iteration_count = n\<rparr>"

definition gtk_progress_tracker_finish :: "GtkProgressTracker \<Rightarrow> GtkProgressTracker" where
  "gtk_progress_tracker_finish tr = tr\<lparr>is_running := False\<rparr>"

definition gtk_progress_tracker_advance_frame :: "GtkProgressTracker \<Rightarrow> int \<Rightarrow> GtkProgressTracker" where
  "gtk_progress_tracker_advance_frame tr frame_time =
     (if \<not> is_running tr then tr
      else case last_frame_time tr of
             None \<Rightarrow> tr\<lparr>last_frame_time := Some frame_time\<rparr>
           | Some prev_time \<Rightarrow>
               if frame_time < prev_time then tr
               else tr\<lparr>last_frame_time := Some frame_time,
                       iteration := iteration tr
                         + real_of_int (frame_time - prev_time) / real_of_int (max (duration tr) 1)\<rparr>)"

definition gtk_progress_tracker_get_state :: "GtkProgressTracker \<Rightarrow> GtkProgressState" where
  "gtk_progress_tracker_get_state tr =
     (if \<not> is_running tr \<or> iteration tr \<ge> iteration_count tr then GTK_PROGRESS_STATE_AFTER
      else if iteration tr < 0 then GTK_PROGRESS_STATE_BEFORE
      else GTK_PROGRESS_STATE_DURING)"

definition gtk_progress_tracker_get_progress :: "GtkProgressTracker \<Rightarrow> real" where
  "gtk_progress_tracker_get_progress tr = min 1 (max 0 (iteration tr))"

definition ease_out_cubic :: "real \<Rightarrow> real" where
  "ease_out_cubic t = (t - 1) * (t - 1) * (t - 1) + 1"

definition gtk_progress_tracker_get_ease_out_cubic :: "GtkProgressTracker \<Rightarrow> real" where
  "gtk_progress_tracker_get_ease_out_cubic tr =
     ease_out_cubic (gtk_progress_tracker_get_progress tr)"

subsection \<open>Modality\<close>

text \<open>
  \<^verbatim>\<open>gtk_popover_apply_modality\<close> and the functions it uses. Its calls into the
  toolkit are kept as their outcome: \<^verbatim>\<open>gtk_grab_add\<close> and \<^verbatim>\<open>gtk_grab_remove\<close> in
  \<open>has_grab\<close>, the connection of \<^verbatim>\<open>window_active_changed\<close> and
  \<^verbatim>\<open>window_set_focus\<close> to the toplevel in \<open>window_handlers\<close>,
  \<^verbatim>\<open>gtk_window_set_focus\<close> and \<^verbatim>\<open>gtk_widget_grab_focus\<close> in \<open>window_focus\<close>.
  Signals that the toolkit sends back while such a call runs are not modelled.
\<close>

definition set_window_focus :: "focus_target \<Rightarrow> GtkPopover \<Rightarrow> GtkPopover" where
  "set_window_focus f p =
     (case window p of None \<Rightarrow> p | Some w \<Rightarrow> p\<lparr>window := Some (w\<lparr>window_focus := f\<rparr>)\<rparr>)"

text \<open>\<^verbatim>\<open>gtk_popover_grab_focus\<close>, the popover's \<^verbatim>\<open>grab_focus\<close> handler.\<close>

definition gtk_popover_grab_focus :: "GtkPopover \<Rightarrow> GtkPopover" where
  "gtk_popover_grab_focus p = (if \<not> visible p then p else set_window_focus FOCUS_POPOVER p)"

text \<open>
  \<^verbatim>\<open>popover_unset_prev_focus\<close>. The identifiers of signal handlers
  (\<^verbatim>\<open>prev_focus_unmap_id\<close> and the like) are not modelled.
\<close>

definition popover_unset_prev_focus :: "GtkPopover \<Rightarrow> GtkPopover" where
  "popover_unset_prev_focus p =
     (if prev_focus_widget p = FOCUS_NONE then p else p\<lparr>prev_focus_widget := FOCUS_NONE\<rparr>)"

text \<open>
  The widget that \<^verbatim>\<open>gtk_popover_apply_modality (popover, FALSE)\<close> gives the focus
  back to: the previous focus widget when it is drawable, the toplevel otherwise.
\<close>

definition restore_focus :: "GtkPopover \<Rightarrow> GtkPopover" where
  "restore_focus p =
     (case prev_focus_widget p of
        FOCUS_WIDGET fw \<Rightarrow>
          if is_drawable fw then set_window_focus (FOCUS_WIDGET fw) p
          else set_window_focus FOCUS_WINDOW p
      | FOCUS_POPOVER \<Rightarrow>
          if widget_visible p \<and> mapped p then gtk_popover_grab_focus p
          else set_window_focus FOCUS_WINDOW p
      | FOCUS_WINDOW \<Rightarrow> set_window_focus FOCUS_WINDOW p
      | FOCUS_NONE \<Rightarrow> set_window_focus FOCUS_WINDOW p)"

definition gtk_popover_apply_modality :: "GtkPopover \<Rightarrow> bool \<Rightarrow> GtkPopover" where
  "gtk_popover_apply_modality p m =
     (case window p of
        None \<Rightarrow> p
      | Some w \<Rightarrow>
          if m then
            (let p1 = p\<lparr>prev_focus_widget := window_focus w\<rparr>;
                 p2 = p1\<lparr>has_grab := True\<rparr>;
                 p3 = set_window_focus FOCUS_NONE p2;
                 p4 = gtk_popover_grab_focus p3
             in p4\<lparr>window_handlers := True\<rparr>)
          else
            (let p1 = p\<lparr>window_handlers := False\<rparr>;
                 p2 = p1\<lparr>has_grab := False\<rparr>;
                 p3 = restore_focus p2
             in popover_unset_prev_focus p3))"

subsection \<open>Transition state machine\<close>

definition transitions_enabled :: "GtkEnv \<Rightarrow> bool" where
  "transitions_enabled env = enable_animations env"

definition gtk_popover_hide_internal :: "GtkPopover \<Rightarrow> GtkPopover" where
  "gtk_popover_hide_internal p =
     (if \<not> visible p then p
      else
        (let p1 = p\<lparr>visible := False\<rparr>;
             p2 = p1\<lparr>closed_emitted := closed_emitted p1 + 1\<rparr>;
             p3 = (if modal p2 then gtk_popover_apply_modality p2 False else p2)
         in if realized p3 then p3\<lparr>input_shape := REGION_EMPTY\<rparr> else p3))"

text \<open>
  Modelled from the spec: \<^verbatim>\<open>gtk_widget_add_tick_callback\<close> and
  \<^verbatim>\<open>gtk_widget_remove_tick_callback\<close> are in \<^verbatim>\<open>gtkwidget.c\<close>, which is not among
  the sources. The spec lists them as the frame clock service,
  "add_tick_callback(fn) -> token, remove_tick_callback(token)". A new callback gets the
  next identifier, which is never 0: the source keeps 0 in \<^verbatim>\<open>tick_id\<close> for "no
  subscription".
\<close>

definition gtk_widget_add_tick_callback :: "GtkPopover \<Rightarrow> GtkPopover" where
  "gtk_widget_add_tick_callback p =
     p\<lparr>tick_counter := tick_counter p + 1,
       tick_callbacks := tick_callbacks p @ [tick_counter p + 1]\<rparr>"

definition gtk_widget_remove_tick_callback :: "GtkPopover \<Rightarrow> nat \<Rightarrow> GtkPopover" where
  "gtk_widget_remove_tick_callback p i = p\<lparr>tick_callbacks := removeAll i (tick_callbacks p)\<rparr>"

definition gtk_popover_stop_transition :: "GtkPopover \<Rightarrow> GtkPopover" where
  "gtk_popover_stop_transition p =
     (if tick_id p \<noteq> 0
      then (gtk_widget_remove_tick_callback p (tick_id p))\<lparr>tick_id := 0\<rparr>
      else p)"

text \<open>
  \<^verbatim>\<open>gtk_popover_start_transition\<close>; the tracker is started with
  \<^verbatim>\<open>(TRANSITION_DURATION, 0, 1.0)\<close>.
\<close>

definition gtk_popover_start_transition :: "GtkPopover \<Rightarrow> GtkPopover" where
  "gtk_popover_start_transition p =
     (if tick_id p \<noteq> 0 then p
      else
        (let p1 = p\<lparr>first_frame_skipped := False\<rparr>;
             p2 = p1\<lparr>tracker := gtk_progress_tracker_start TRANSITION_DURATION 1\<rparr>;
             p3 = gtk_widget_add_tick_callback p2
         in p3\<lparr>tick_id := tick_counter p3\<rparr>))"

text \<open>
  \<^verbatim>\<open>gtk_popover_map\<close> and \<^verbatim>\<open>gtk_popover_unmap\<close>, the class handlers: they chain up to
  the parent class, which sets and clears the mapped flag of the widget, and
  \<^verbatim>\<open>gtk_popover_map\<close> recomputes the position. The default widget of the toplevel and
  \<^verbatim>\<open>button_pressed\<close> are not modelled.
\<close>

definition gtk_popover_map :: "GtkEnv \<Rightarrow> GtkPopover \<Rightarrow> GtkPopover" where
  "gtk_popover_map env p = gtk_popover_update_position env (p\<lparr>mapped := True\<rparr>)"

definition gtk_popover_unmap :: "GtkPopover \<Rightarrow> GtkPopover" where
  "gtk_popover_unmap p = p\<lparr>mapped := False\<rparr>"

text \<open>
  Modelled from the spec: \<^verbatim>\<open>gtk_widget_map\<close>, \<^verbatim>\<open>gtk_widget_unmap\<close> and the
  \<^verbatim>\<open>show\<close> and \<^verbatim>\<open>hide\<close> handlers of the parent class (\<^verbatim>\<open>gtk_widget_real_show\<close>,
  \<^verbatim>\<open>gtk_widget_real_hide\<close>) are in \<^verbatim>\<open>gtkwidget.c\<close>, which is not among the sources.
  The spec has the placement "computed on first realization" and the transition
  advancing "only while the popover is mapped onto screen", and popup "make the popover
  visible". Mapping a widget realizes it first (\<^verbatim>\<open>gtk_popover_realize\<close>) and runs its
  \<^verbatim>\<open>map\<close> handler; showing sets the visible flag of the widget and maps it when its
  parent is mapped; hiding clears the flag and unmaps it.
\<close>

definition gtk_widget_map :: "GtkEnv \<Rightarrow> GtkPopover \<Rightarrow> GtkPopover" where
  "gtk_widget_map env p = (if mapped p then p else gtk_popover_map env (p\<lparr>realized := True\<rparr>))"

definition gtk_widget_unmap :: "GtkPopover \<Rightarrow> GtkPopover" where
  "gtk_widget_unmap p = (if mapped p then gtk_popover_unmap p else p)"

definition gtk_widget_real_show :: "GtkEnv \<Rightarrow> GtkPopover \<Rightarrow> GtkPopover" where
  "gtk_widget_real_show env p =
     (if widget_visible p then p
      else
        (let p1 = p\<lparr>widget_visible := True\<rparr>
         in if parent_mapped env \<and> \<not> mapped p1 then gtk_widget_map env p1 else p1))"

definition gtk_widget_real_hide :: "GtkPopover \<Rightarrow> GtkPopover" where
  "gtk_widget_real_hide p =
     (if widget_visible p then
        (let p1 = p\<lparr>widget_visible := False\<rparr>
         in if mapped p1 then gtk_widget_unmap p1 else p1)
      else p)"

text \<open>
  \<^verbatim>\<open>gtk_popover_show\<close> and \<^verbatim>\<open>gtk_popover_hide\<close>, the class handlers.
  \<^verbatim>\<open>_gtk_window_raise_popover\<close> has no effect on the modelled state.
\<close>

definition gtk_popover_show :: "GtkEnv \<Rightarrow> GtkPopover \<Rightarrow> GtkPopover" where
  "gtk_popover_show env p =
     (let p1 = p\<lparr>visible := True\<rparr>;
          p2 = gtk_widget_real_show env p1;
          p3 = (if modal p2 then gtk_popover_apply_modality p2 True else p2);
          p4 = p3\<lparr>state := STATE_SHOWN\<rparr>
      in if realized p4 then p4\<lparr>input_shape := REGION_NULL\<rparr> else p4)"

definition gtk_popover_hide :: "GtkPopover \<Rightarrow> GtkPopover" where
  "gtk_popover_hide p =
     (let p1 = gtk_popover_hide_internal p;
          p2 = gtk_popover_stop_transition p1;
          p3 = p2\<lparr>state := STATE_HIDDEN\<rparr>;
          p4 = p3\<lparr>transition_diff := 0\<rparr>;
          p5 = p4\<lparr>tracker := gtk_progress_tracker_finish (tracker p4)\<rparr>;
          p6 = p5\<lparr>opacity := 1\<rparr>
      in gtk_widget_real_hide p6)"

text \<open>
  Modelled from the spec: \<^verbatim>\<open>gtk_widget_show\<close>, \<^verbatim>\<open>gtk_widget_hide\<close> and
  \<^verbatim>\<open>gtk_widget_set_visible\<close> are in \<^verbatim>\<open>gtkwidget.c\<close>, which is not among the sources.
  The spec calls them the "immediate show()/hide()" that "bypass the animation". They run
  the handlers that \<^verbatim>\<open>gtk_popover_class_init\<close> installs (\<^verbatim>\<open>widget_class->show =
  gtk_popover_show\<close>, \<^verbatim>\<open>widget_class->hide = gtk_popover_hide\<close>); showing a widget
  whose visible flag is set and hiding one whose flag is clear do nothing.
\<close>

definition gtk_widget_show :: "GtkEnv \<Rightarrow> GtkPopover \<Rightarrow> GtkPopover" where
  "gtk_widget_show env p = (if widget_visible p then p else gtk_popover_show env p)"

definition gtk_widget_hide :: "GtkPopover \<Rightarrow> GtkPopover" where
  "gtk_widget_hide p = (if widget_visible p then gtk_popover_hide p else p)"

definition gtk_widget_set_visible :: "GtkEnv \<Rightarrow> GtkPopover \<Rightarrow> bool \<Rightarrow> GtkPopover" where
  "gtk_widget_set_visible env p v = (if v then gtk_widget_show env p else gtk_widget_hide p)"

definition gtk_popover_set_state :: "GtkEnv \<Rightarrow> GtkPopover \<Rightarrow> popover_state \<Rightarrow> GtkPopover" where
  "gtk_popover_set_state env p st =
     (let st' = (if \<not> transitions_enabled env \<or> \<not> realized p then
                   (if st = STATE_SHOWING then STATE_SHOWN
                    else if st = STATE_HIDING then STATE_HIDDEN
                    else st)
                 else st);
          p1 = p\<lparr>state := st'\<rparr>
      in if st' = STATE_SHOWING \<or> st' = STATE_HIDING then gtk_popover_start_transition p1
         else gtk_widget_set_visible env (gtk_popover_stop_transition p1) (st' = STATE_SHOWN))"

text \<open>
  The conversion of a \<^verbatim>\<open>gdouble\<close> to a \<^verbatim>\<open>gint\<close> in an assignment: the fraction is
  dropped (truncation towards zero).
\<close>

definition gint_of_gdouble :: "real \<Rightarrow> int" where
  "gint_of_gdouble v = (if v \<ge> 0 then \<lfloor>v\<rfloor> else \<lceil>v\<rceil>)"

text \<open>
  \<^verbatim>\<open>show_animate_cb\<close>, the tick callback: the result is \<open>True\<close> for
  \<^verbatim>\<open>G_SOURCE_CONTINUE\<close> and \<open>False\<close> for \<^verbatim>\<open>G_SOURCE_REMOVE\<close>, with the popover
  after the call. \<open>opacity\<close> is the value handed to \<^verbatim>\<open>gtk_widget_set_opacity\<close>;
  \<^verbatim>\<open>gtk_widget_queue_allocate\<close> has no effect on the modelled state.
\<close>

definition show_animate_cb :: "GtkEnv \<Rightarrow> GtkPopover \<Rightarrow> int \<Rightarrow> bool \<times> GtkPopover" where
  "show_animate_cb env p frame_time =
     (let p1 = (if first_frame_skipped p
                then p\<lparr>tracker := gtk_progress_tracker_advance_frame (tracker p) frame_time\<rparr>
                else p\<lparr>first_frame_skipped := True\<rparr>);
          t = gtk_progress_tracker_get_ease_out_cubic (tracker p1);
          p2 = (if state p1 = STATE_SHOWING then
                  p1\<lparr>transition_diff :=
                        gint_of_gdouble (real_of_int TRANSITION_DIFF - real_of_int TRANSITION_DIFF * t),
                     opacity := t\<rparr>
                else if state p1 = STATE_HIDING then
                  p1\<lparr>transition_diff := gint_of_gdouble (real_of_int (- TRANSITION_DIFF) * t),
                     opacity := 1 - t\<rparr>
                else p1);
          p3 = gtk_popover_update_position env p2
      in if gtk_progress_tracker_get_state (tracker p3) = GTK_PROGRESS_STATE_AFTER then
           (let p4 = (if state p3 = STATE_SHOWING then
                        (let q = gtk_popover_set_state env p3 STATE_SHOWN
                         in if \<not> visible q then gtk_popover_set_state env q STATE_HIDING else q)
                      else gtk_widget_hide p3)
            in (False, p4\<lparr>tick_id := 0\<rparr>))
         else (True, p3))"

text \<open>
  Modelled from the spec: the dispatch of a frame to the tick callbacks is in
  \<^verbatim>\<open>gtkwidget.c\<close>, which is not among the sources. The spec has the transition logic
  "registering a callback invoked once per refresh and returning a continue/stop signal".
  In one frame every tick callback registered when the frame starts and still registered
  when its turn comes is called with the frame time (\<^verbatim>\<open>gdk_frame_clock_get_frame_time\<close>),
  and is removed when it returns \<^verbatim>\<open>G_SOURCE_REMOVE\<close>. The only callback this file
  registers is \<^verbatim>\<open>show_animate_cb\<close>.
\<close>

fun run_tick_callbacks :: "GtkEnv \<Rightarrow> int \<Rightarrow> nat list \<Rightarrow> GtkPopover \<Rightarrow> GtkPopover" where
  "run_tick_callbacks env frame_time [] p = p"
| "run_tick_callbacks env frame_time (i # ids) p =
     (if i \<in> set (tick_callbacks p) then
        (let r = show_animate_cb env p frame_time;
             p' = (if fst r then snd r else gtk_widget_remove_tick_callback (snd r) i)
         in run_tick_callbacks env frame_time ids p')
      else run_tick_callbacks env frame_time ids p)"

definition frame_tick :: "GtkEnv \<Rightarrow> int \<Rightarrow> GtkPopover \<Rightarrow> GtkPopover" where
  "frame_tick env frame_time p = run_tick_callbacks env frame_time (tick_callbacks p) p"

fun run_frames :: "GtkEnv \<Rightarrow> int list \<Rightarrow> GtkPopover \<Rightarrow> GtkPopover" where
  "run_frames env [] p = p"
| "run_frames env (t # ts) p = run_frames env ts (frame_tick env t p)"

subsection \<open>Public operations\<close>

definition gtk_popover_popup :: "GtkEnv \<Rightarrow> GtkPopover \<Rightarrow> GtkPopover" where
  "gtk_popover_popup env p =
     (if state p = STATE_SHOWING \<or> state p = STATE_SHOWN then p
      else
        (let p1 = gtk_widget_show env p
         in if transitions_enabled env then gtk_popover_set_state env p1 STATE_SHOWING else p1))"

definition gtk_popover_popdown :: "GtkEnv \<Rightarrow> GtkPopover \<Rightarrow> GtkPopover" where
  "gtk_popover_popdown env p =
     (if state p = STATE_HIDING \<or> state p = STATE_HIDDEN then p
      else
        (let p1 = (if \<not> transitions_enabled env then gtk_widget_hide p
                   else gtk_popover_set_state env p STATE_HIDING)
         in gtk_popover_hide_internal p1))"

definition gtk_popover_parent_unmap :: "GtkEnv \<Rightarrow> GtkPopover \<Rightarrow> GtkPopover" where
  "gtk_popover_parent_unmap env p =
     (if state p = STATE_SHOWING then p\<lparr>visible := False\<rparr>
      else if state p = STATE_SHOWN then gtk_popover_set_state env p STATE_HIDING
      else p)"

text \<open>
  \<^verbatim>\<open>gtk_popover_set_pointing_to\<close>: \<^verbatim>\<open>g_return_if_fail (rect != NULL)\<close> returns
  without doing anything.
\<close>

definition gtk_popover_set_pointing_to :: "GtkEnv \<Rightarrow> GtkPopover \<Rightarrow> GdkRectangle option \<Rightarrow> GtkPopover" where
  "gtk_popover_set_pointing_to env p r =
     (case r of
        None \<Rightarrow> p
      | Some rect \<Rightarrow> gtk_popover_update_position env (gtk_popover_update_pointing_to p r))"

definition gtk_popover_update_preferred_position :: "GtkPopover \<Rightarrow> GtkPositionType \<Rightarrow> GtkPopover" where
  "gtk_popover_update_preferred_position p position =
     (if preferred_position p = position then p else p\<lparr>preferred_position := position\<rparr>)"

definition gtk_popover_set_position :: "GtkEnv \<Rightarrow> GtkPopover \<Rightarrow> GtkPositionType \<Rightarrow> GtkPopover" where
  "gtk_popover_set_position env p position =
     gtk_popover_update_position env (gtk_popover_update_preferred_position p position)"

text \<open>
  \<^verbatim>\<open>gtk_popover_init\<close> on the instance GObject hands it: the private structure is
  zero-filled and the widget is neither visible, realized nor mapped, with opacity 1.
  The fields that \<^verbatim>\<open>gtk_popover_init\<close> assigns are \<open>modal\<close>, \<open>tick_id\<close>, \<open>state\<close>,
  \<open>visible\<close>, \<open>preferred_position\<close> and \<open>constraint\<close>.
\<close>

definition zeroed_instance :: GtkPopover where
  "zeroed_instance =
     \<lparr>widget = None, window = None, prev_focus_widget = FOCUS_NONE,
      pointing_to = zero_rect, constraint = GTK_POPOVER_CONSTRAINT_NONE,
      tracker = \<lparr>is_running = False, last_frame_time = None, duration = 0, iteration = 0,
                 iteration_count = 0\<rparr>,
      has_pointing_to = False,
      preferred_position = GTK_POS_LEFT, final_position = GTK_POS_LEFT,
      current_position = GTK_POS_LEFT,
      modal = False, state = STATE_SHOWING, visible = False, first_frame_skipped = False,
      transition_diff = 0, tick_id = 0,
      widget_visible = False, realized = False, mapped = False, opacity = 1,
      closed_emitted = 0, has_grab = False, window_handlers = False,
      input_shape = REGION_NULL, shape_updates = 0, tick_callbacks = [], tick_counter = 0\<rparr>"

definition gtk_popover_init :: "GtkPopover \<Rightarrow> GtkPopover" where
  "gtk_popover_init p =
     p\<lparr>modal := True, tick_id := 0, state := STATE_HIDDEN, visible := False,
       preferred_position := GTK_POS_TOP, constraint := GTK_POPOVER_CONSTRAINT_WINDOW\<rparr>"

subsection \<open>Sequences of operations\<close>

text \<open>
  The calls that reach a popover from outside, among those modelled:
  \<^verbatim>\<open>gtk_popover_set_pointing_to\<close>, \<^verbatim>\<open>gtk_popover_set_position\<close>,
  \<^verbatim>\<open>gtk_popover_update_position\<close>, \<^verbatim>\<open>gtk_widget_show\<close>, \<^verbatim>\<open>gtk_widget_hide\<close>,
  \<^verbatim>\<open>gtk_popover_popup\<close>, \<^verbatim>\<open>gtk_popover_popdown\<close>, the unmap of the anchor widget
  and a frame of the frame clock. Each call comes with the environment it runs in.
\<close>

datatype popover_op =
  OP_SET_POINTING_TO "GdkRectangle option"
| OP_SET_POSITION GtkPositionType
| OP_UPDATE_POSITION
| OP_SHOW
| OP_HIDE
| OP_POPUP
| OP_POPDOWN
| OP_PARENT_UNMAP
| OP_FRAME int

fun apply_op :: "GtkEnv \<Rightarrow> popover_op \<Rightarrow> GtkPopover \<Rightarrow> GtkPopover" where
  "apply_op env (OP_SET_POINTING_TO r) p = gtk_popover_set_pointing_to env p r"
| "apply_op env (OP_SET_POSITION s) p = gtk_popover_set_position env p s"
| "apply_op env OP_UPDATE_POSITION p = gtk_popover_update_position env p"
| "apply_op env OP_SHOW p = gtk_widget_show env p"
| "apply_op env OP_HIDE p = gtk_widget_hide p"
| "apply_op env OP_POPUP p = gtk_popover_popup env p"
| "apply_op env OP_POPDOWN p = gtk_popover_popdown env p"
| "apply_op env OP_PARENT_UNMAP p = gtk_popover_parent_unmap env p"
| "apply_op env (OP_FRAME t) p = frame_tick env t p"

fun run_ops :: "(GtkEnv \<times> popover_op) list \<Rightarrow> GtkPopover \<Rightarrow> GtkPopover" where
  "run_ops [] p = p"
| "run_ops (eo # rest) p = run_ops rest (apply_op (fst eo) (snd eo) p)"

text \<open>The rectangle of the last \<^verbatim>\<open>gtk_popover_set_pointing_to\<close> call of a sequence, if any.\<close>

fun pointing_to_of_op :: "popover_op \<Rightarrow> GdkRectangle option" where
  "pointing_to_of_op (OP_SET_POINTING_TO r) = r"
| "pointing_to_of_op other = None"

fun last_pointing_to :: "(GtkEnv \<times> popover_op) list \<Rightarrow> GdkRectangle option" where
  "last_pointing_to [] = None"
| "last_pointing_to (eo # rest) =
     (case last_pointing_to rest of
        Some r \<Rightarrow> Some r
      | None \<Rightarrow> pointing_to_of_op (snd eo))"

subsection \<open>Quantities the properties speak about\<close>

text \<open>
  The overshoot array of \<^verbatim>\<open>gtk_popover_update_position\<close> for a popover in a window:
  by how much the popover would pass the window edge on each side.
\<close>

definition popover_overshoot :: "GtkEnv \<Rightarrow> GtkPopover \<Rightarrow> GtkWindow \<Rightarrow> GtkPositionType \<Rightarrow> int" where
  "popover_overshoot env p w =
     overshoot (preferred_size env) (anchor_rect_in_window env p) (window_alloc w) (window_shadow w)"




text \<open>
  Inside \<^verbatim>\<open>show_animate_cb\<close>: the tracker after the first statement (advanced, unless
  this is the first frame of the transition), the value \<^verbatim>\<open>t\<close>, and the popover once
  \<^verbatim>\<open>transition_diff\<close> and the opacity are assigned.
\<close>

definition tracker_after_advance :: "GtkPopover \<Rightarrow> int \<Rightarrow> GtkProgressTracker" where
  "tracker_after_advance p frame_time =
     (if first_frame_skipped p
      then gtk_progress_tracker_advance_frame (tracker p) frame_time
      else tracker p)"

definition eased_progress :: "GtkPopover \<Rightarrow> int \<Rightarrow> real" where
  "eased_progress p frame_time =
     gtk_progress_tracker_get_ease_out_cubic (tracker_after_advance p frame_time)"

definition animate_values :: "GtkPopover \<Rightarrow> int \<Rightarrow> GtkPopover" where
  "animate_values p frame_time =
     (let p1 = (if first_frame_skipped p
                then p\<lparr>tracker := gtk_progress_tracker_advance_frame (tracker p) frame_time\<rparr>
                else p\<lparr>first_frame_skipped := True\<rparr>);
          t = eased_progress p frame_time
      in if state p = STATE_SHOWING then
           p1\<lparr>transition_diff := gint_of_gdouble (20 - 20 * t), opacity := t\<rparr>
         else if state p = STATE_HIDING then
           p1\<lparr>transition_diff := gint_of_gdouble (- 20 * t), opacity := 1 - t\<rparr>
         else p1)"

text \<open>
  While the popover is not in the state HIDDEN, the visible flag of the widget is set.
\<close>

definition widget_shown :: "GtkPopover \<Rightarrow> bool" where
  "widget_shown p \<longleftrightarrow> (state p \<noteq> STATE_HIDDEN \<longrightarrow> widget_visible p)"

text \<open>
  A popover at rest: hidden, with no animation subscribed. A popover in the middle of a
  transition: visible as a widget and realized, with its one tick callback subscribed
  and the tracker started by \<^verbatim>\<open>gtk_popover_start_transition\<close> not yet at its end;
  \<open>now\<close> bounds the frame times seen so far.
\<close>

definition resting :: "GtkPopover \<Rightarrow> bool" where
  "resting p \<longleftrightarrow>
     state p = STATE_HIDDEN \<and> \<not> widget_visible p \<and> \<not> visible p \<and> tick_id p = 0 \<and>
     tick_callbacks p = []"

definition animating :: "popover_state \<Rightarrow> int \<Rightarrow> GtkPopover \<Rightarrow> bool" where
  "animating st now p \<longleftrightarrow>
     state p = st \<and> widget_visible p \<and> realized p \<and> tick_id p \<noteq> 0 \<and>
     tick_callbacks p = [tick_id p] \<and>
     is_running (tracker p) \<and> duration (tracker p) = TRANSITION_DURATION \<and>
     iteration_count (tracker p) = 1 \<and>
     0 \<le> iteration (tracker p) \<and> iteration (tracker p) < 1 \<and>
     (case last_frame_time (tracker p) of None \<Rightarrow> True | Some prev_time \<Rightarrow> prev_time \<le> now)"

subsection \<open>Concrete configurations\<close>

text \<open>
  A left-to-right X11 setting with a popover of 200 by 100 pixels in a window of 800 by
  600, anchored at the rectangle (100, 100, 20, 20); the same with the anchor 5 pixels
  below the top edge; and a window of 10 by 10 that leaves no room on any side.
\<close>

definition example_env :: GtkEnv where
  "example_env =
     \<lparr>direction = GTK_TEXT_DIR_LTR, wayland_display = False, enable_animations = True,
      preferred_size = \<lparr>req_width = 200, req_height = 100\<rparr>,
      translate_to_window = (\<lambda>xy. xy),
      translate_to_popover = (\<lambda>xy. (fst xy - 10, snd xy)),
      popover_origin = (10, 0), popover_width = 200, popover_height = 100,
      contents_border = \<lparr>border_left = 1, border_right = 1, border_top = 1, border_bottom = 1\<rparr>,
      border_radius = 9, parent_mapped = True\<rparr>"

definition example_window :: GtkWindow where
  "example_window =
     \<lparr>window_alloc = \<lparr>rect_x = 0, rect_y = 0, rect_width = 800, rect_height = 600\<rparr>,
      window_shadow = \<lparr>border_left = 0, border_right = 0, border_top = 0, border_bottom = 0\<rparr>,
      window_focus = FOCUS_NONE, popover_position = None\<rparr>"

definition example_anchor :: GtkWidget where
  "example_anchor =
     \<lparr>widget_name = 1,
      own_allocation = \<lparr>rect_x = 0, rect_y = 0, rect_width = 300, rect_height = 200\<rparr>,
      is_drawable = True, is_entry = False\<rparr>"

definition example_popover :: GtkPopover where
  "example_popover =
     (gtk_popover_init zeroed_instance)
       \<lparr>widget := Some example_anchor, window := Some example_window,
        pointing_to := \<lparr>rect_x = 100, rect_y = 100, rect_width = 20, rect_height = 20\<rparr>,
        has_pointing_to := True\<rparr>"

definition near_top_popover :: GtkPopover where
  "near_top_popover =
     example_popover\<lparr>pointing_to := \<lparr>rect_x = 100, rect_y = 5, rect_width = 20, rect_height = 20\<rparr>\<rparr>"

definition crowded_popover :: GtkPopover where
  "crowded_popover =
     example_popover
       \<lparr>window := Some (example_window
           \<lparr>window_alloc := \<lparr>rect_x = 0, rect_y = 0, rect_width = 10, rect_height = 10\<rparr>\<rparr>),
        pointing_to := \<lparr>rect_x = 0, rect_y = 0, rect_width = 10, rect_height = 10\<rparr>\<rparr>"

definition square_env :: GtkEnv where
  "square_env = example_env\<lparr>preferred_size := \<lparr>req_width = 100, req_height = 100\<rparr>\<rparr>"

text \<open>A new popover attached to the anchor and the window, with no pointing rectangle set.\<close>

definition attached_popover :: GtkPopover where
  "attached_popover =
     (gtk_popover_init zeroed_instance)
       \<lparr>widget := Some example_anchor, window := Some example_window\<rparr>"







section \<open>Properties\<close>

subsection \<open>Side resolution\<close>

lemmas example_defs = example_env_def example_window_def example_anchor_def example_popover_def
  near_top_popover_def crowded_popover_def square_env_def gtk_popover_init_def zeroed_instance_def
  zero_rect_def

lemmas geometry_defs = popover_overshoot_def anchor_rect_in_window_def
  gtk_popover_get_pointing_to_def get_effective_position_def

lemma final_position_update:
  "window p = Some w \<Longrightarrow>
   final_position (gtk_popover_update_position env p) =
     resolve_position env (constraint p) (preferred_position p) (popover_overshoot env p w)"
  by (simp add: gtk_popover_update_position_def popover_overshoot_def Let_def)

lemma all_positions: "(\<forall>s. P s) \<longleftrightarrow> P GTK_POS_LEFT \<and> P GTK_POS_RIGHT \<and> P GTK_POS_TOP \<and> P GTK_POS_BOTTOM"
  by (metis GtkPositionType.exhaust)

lemma loop_unfold:
  "best_position_loop env ov 0 (GTK_POS_LEFT, G_MAXINT) =
   (let e = get_effective_position env;
        s0 = (if ov (e GTK_POS_LEFT) < G_MAXINT then (GTK_POS_LEFT, ov (e GTK_POS_LEFT)) else (GTK_POS_LEFT, G_MAXINT));
        s1 = (if ov (e GTK_POS_RIGHT) < snd s0 then (GTK_POS_RIGHT, ov (e GTK_POS_RIGHT)) else s0);
        s2 = (if ov (e GTK_POS_TOP) < snd s1 then (GTK_POS_TOP, ov (e GTK_POS_TOP)) else s1);
        s3 = (if ov (e GTK_POS_BOTTOM) < snd s2 then (GTK_POS_BOTTOM, ov (e GTK_POS_BOTTOM)) else s2)
    in s3)"
  by (simp add: best_position_loop.simps position_of_value_def Let_def)

lemma effective_cases:
  "get_effective_position env = (\<lambda>s. s) \<or>
   get_effective_position env =
     (\<lambda>s. if s = GTK_POS_LEFT then GTK_POS_RIGHT else if s = GTK_POS_RIGHT then GTK_POS_LEFT else s)"
  by (auto simp add: get_effective_position_def fun_eq_iff)

lemma effective_opposite:
  "get_effective_position env (opposite_position s) =
   opposite_position (get_effective_position env s)"
  by (cases s) (simp_all add: get_effective_position_def)

lemma loop_minimal:
  assumes "\<forall>s. ov s \<le> G_MAXINT"
  shows "(\<forall>s. ov (get_effective_position env (fst (best_position_loop env ov 0 (GTK_POS_LEFT, G_MAXINT))))
               \<le> ov (get_effective_position env s)) \<and>
         (\<forall>s. position_value s < position_value (fst (best_position_loop env ov 0 (GTK_POS_LEFT, G_MAXINT)))
               \<longrightarrow> ov (get_effective_position env (fst (best_position_loop env ov 0 (GTK_POS_LEFT, G_MAXINT))))
                    < ov (get_effective_position env s))"
proof -
  have b: "ov GTK_POS_LEFT \<le> G_MAXINT" "ov GTK_POS_RIGHT \<le> G_MAXINT"
    "ov GTK_POS_TOP \<le> G_MAXINT" "ov GTK_POS_BOTTOM \<le> G_MAXINT"
    using assms by simp_all
  from effective_cases [of env] show ?thesis
  proof
    assume e: "get_effective_position env = (\<lambda>s. s)"
    show ?thesis
      unfolding loop_unfold all_positions e Let_def using b by (simp; linarith)
  next
    assume e: "get_effective_position env =
     (\<lambda>s. if s = GTK_POS_LEFT then GTK_POS_RIGHT else if s = GTK_POS_RIGHT then GTK_POS_LEFT else s)"
    show ?thesis
      unfolding loop_unfold all_positions e Let_def using b by (simp; linarith)
  qed
qed







text \<open>
  Claim C3 as stated fails where sides of both axes tie: with an overshoot of 100 on all
  four sides the loop keeps the first side it meets, which is LEFT (value 0), not TOP.
\<close>

theorem tie_goes_to_left_counterexample:
  "popover_overshoot square_env crowded_popover (the (window crowded_popover)) GTK_POS_TOP = 100 \<and>
   popover_overshoot square_env crowded_popover (the (window crowded_popover)) GTK_POS_BOTTOM = 100 \<and>
   popover_overshoot square_env crowded_popover (the (window crowded_popover)) GTK_POS_LEFT = 100 \<and>
   popover_overshoot square_env crowded_popover (the (window crowded_popover)) GTK_POS_RIGHT = 100 \<and>
   final_position (gtk_popover_update_position square_env crowded_popover) = GTK_POS_LEFT \<and>
   final_position (gtk_popover_update_position square_env crowded_popover) \<noteq> GTK_POS_TOP"
proof -
  have w: "window crowded_popover = Some (the (window crowded_popover))"
    by (simp add: example_defs)
  have f: "final_position (gtk_popover_update_position square_env crowded_popover) = GTK_POS_LEFT"
    unfolding final_position_update [OF w] resolve_position_def loop_unfold
    by (simp add: example_defs geometry_defs G_MAXINT_def)
  show ?thesis
    unfolding f by (simp add: example_defs geometry_defs)
qed

text \<open>
  On a Wayland display with the constraint \<^verbatim>\<open>GTK_POPOVER_CONSTRAINT_NONE\<close> the least
  overshoot is not looked for either: with overshoots of 200 left and right and 100 above
  and below, a popover that prefers LEFT stays LEFT.
\<close>

lemma least_overshoot_on_wayland_example:
  "popover_overshoot (example_env\<lparr>wayland_display := True\<rparr>)
     (crowded_popover\<lparr>constraint := GTK_POPOVER_CONSTRAINT_NONE, preferred_position := GTK_POS_LEFT\<rparr>)
     (the (window crowded_popover)) GTK_POS_LEFT = 200 \<and>
   popover_overshoot (example_env\<lparr>wayland_display := True\<rparr>)
     (crowded_popover\<lparr>constraint := GTK_POPOVER_CONSTRAINT_NONE, preferred_position := GTK_POS_LEFT\<rparr>)
     (the (window crowded_popover)) GTK_POS_TOP = 100 \<and>
   final_position (gtk_popover_update_position (example_env\<lparr>wayland_display := True\<rparr>)
     (crowded_popover\<lparr>constraint := GTK_POPOVER_CONSTRAINT_NONE, preferred_position := GTK_POS_LEFT\<rparr>)) =
     GTK_POS_LEFT"
  by (simp add: example_defs geometry_defs resolve_position_def
      final_position_update [where w = "the (window crowded_popover)"])

text \<open>
  Claim C3, amended. Unless the display is a Wayland display and the constraint is
  \<^verbatim>\<open>GTK_POPOVER_CONSTRAINT_NONE\<close>: whenever all four overshoot values are positive
  (and within \<^verbatim>\<open>gint\<close>), the effective side of the resolved side has the least
  overshoot of all, and every side that comes before the resolved side in the order of
  the enumeration, LEFT, RIGHT, TOP, BOTTOM, has a strictly greater overshoot on its
  effective side: the first minimum in that order wins.
\<close>

theorem least_overshoot_side:
  assumes "window p = Some w"
    and "\<not> (wayland_display env \<and> constraint p = GTK_POPOVER_CONSTRAINT_NONE)"
    and "\<forall>s. 0 < popover_overshoot env p w s \<and> popover_overshoot env p w s \<le> G_MAXINT"
  shows "(\<forall>s. popover_overshoot env p w
                 (get_effective_position env (final_position (gtk_popover_update_position env p)))
               \<le> popover_overshoot env p w (get_effective_position env s)) \<and>
         (\<forall>s. position_value s < position_value (final_position (gtk_popover_update_position env p))
               \<longrightarrow> popover_overshoot env p w
                      (get_effective_position env (final_position (gtk_popover_update_position env p)))
                    < popover_overshoot env p w (get_effective_position env s))"
proof -
  have pos: "\<not> popover_overshoot env p w (get_effective_position env (preferred_position p)) \<le> 0"
    "\<not> popover_overshoot env p w
          (opposite_position (get_effective_position env (preferred_position p))) \<le> 0"
    using assms(3) by (simp_all add: not_le)
  have f: "final_position (gtk_popover_update_position env p) =
           fst (best_position_loop env (popover_overshoot env p w) 0 (GTK_POS_LEFT, G_MAXINT))"
    using assms(1,2) pos by (auto simp add: final_position_update resolve_position_def Let_def)
  from assms(3) have "\<forall>s. popover_overshoot env p w s \<le> G_MAXINT" by simp
  from loop_minimal [OF this, of env] show ?thesis unfolding f .
qed

text \<open>
  The window without room on any side: the resolved side LEFT has the least overshoot.
\<close>

theorem least_overshoot_side_witness:
  "window crowded_popover = Some (the (window crowded_popover)) \<and>
   \<not> (wayland_display square_env \<and> constraint crowded_popover = GTK_POPOVER_CONSTRAINT_NONE) \<and>
   (\<forall>s. 0 < popover_overshoot square_env crowded_popover (the (window crowded_popover)) s \<and>
        popover_overshoot square_env crowded_popover (the (window crowded_popover)) s \<le> G_MAXINT) \<and>
   (\<forall>s. popover_overshoot square_env crowded_popover (the (window crowded_popover))
          (get_effective_position square_env
             (final_position (gtk_popover_update_position square_env crowded_popover)))
        \<le> popover_overshoot square_env crowded_popover (the (window crowded_popover))
             (get_effective_position square_env s))"
proof -
  have w: "window crowded_popover = Some (the (window crowded_popover))"
    by (simp add: example_defs)
  have c: "\<not> (wayland_display square_env \<and> constraint crowded_popover = GTK_POPOVER_CONSTRAINT_NONE)"
    by (simp add: example_defs)
  have o: "\<forall>s. 0 < popover_overshoot square_env crowded_popover (the (window crowded_popover)) s \<and>
        popover_overshoot square_env crowded_popover (the (window crowded_popover)) s \<le> G_MAXINT"
    unfolding all_positions by (simp add: example_defs geometry_defs G_MAXINT_def)
  from least_overshoot_side [OF w c o] w c o show ?thesis by blast
qed

text \<open>
  Claim C4 as stated fails off Wayland: with the constraint
  \<^verbatim>\<open>GTK_POPOVER_CONSTRAINT_NONE\<close> on an X11 display the overshoot tests run, and the
  popover anchored 5 pixels below the top edge flips from TOP to BOTTOM.
\<close>

theorem unconstrained_off_wayland_counterexample:
  "constraint (near_top_popover\<lparr>constraint := GTK_POPOVER_CONSTRAINT_NONE\<rparr>) = GTK_POPOVER_CONSTRAINT_NONE \<and>
   preferred_position (near_top_popover\<lparr>constraint := GTK_POPOVER_CONSTRAINT_NONE\<rparr>) = GTK_POS_TOP \<and>
   final_position (gtk_popover_update_position example_env
     (near_top_popover\<lparr>constraint := GTK_POPOVER_CONSTRAINT_NONE\<rparr>)) = GTK_POS_BOTTOM"
  by (simp add: example_defs geometry_defs final_position_update [where w = example_window]
      resolve_position_def)

text \<open>
  Claim C4, amended. Whenever the constraint is \<^verbatim>\<open>GTK_POPOVER_CONSTRAINT_NONE\<close> and the
  display is a Wayland display, \<^verbatim>\<open>gtk_popover_update_position\<close> sets
  \<^verbatim>\<open>final_position\<close> to the preferred side whatever the overshoot values are.
\<close>

theorem unconstrained_on_wayland:
  assumes "window p = Some w"
    and "wayland_display env"
    and "constraint p = GTK_POPOVER_CONSTRAINT_NONE"
  shows "final_position (gtk_popover_update_position env p) = preferred_position p"
  using assms by (simp add: final_position_update resolve_position_def Let_def)

text \<open>
  The anchor 5 pixels below the top edge on a Wayland display, unconstrained: TOP stays.
\<close>

theorem unconstrained_on_wayland_witness:
  "window (near_top_popover\<lparr>constraint := GTK_POPOVER_CONSTRAINT_NONE\<rparr>) = Some example_window \<and>
   wayland_display (example_env\<lparr>wayland_display := True\<rparr>) \<and>
   constraint (near_top_popover\<lparr>constraint := GTK_POPOVER_CONSTRAINT_NONE\<rparr>) = GTK_POPOVER_CONSTRAINT_NONE \<and>
   final_position (gtk_popover_update_position (example_env\<lparr>wayland_display := True\<rparr>)
     (near_top_popover\<lparr>constraint := GTK_POPOVER_CONSTRAINT_NONE\<rparr>)) = GTK_POS_TOP"
proof -
  have w: "window (near_top_popover\<lparr>constraint := GTK_POPOVER_CONSTRAINT_NONE\<rparr>) = Some example_window"
    by (simp add: example_defs)
  have d: "wayland_display (example_env\<lparr>wayland_display := True\<rparr>)"
    by simp
  have c: "constraint (near_top_popover\<lparr>constraint := GTK_POPOVER_CONSTRAINT_NONE\<rparr>) = GTK_POPOVER_CONSTRAINT_NONE"
    by simp
  have "preferred_position (near_top_popover\<lparr>constraint := GTK_POPOVER_CONSTRAINT_NONE\<rparr>) = GTK_POS_TOP"
    by (simp add: example_defs)
  with unconstrained_on_wayland [OF w d c] w d c show ?thesis by simp
qed

subsection \<open>Arrow geometry and initial state\<close>

lemma CLAMP_in_range: "low \<le> high \<Longrightarrow> low \<le> CLAMP v low high \<and> CLAMP v low high \<le> high"
  by (simp add: CLAMP_def)

lemma CLAMP_max_min: "low \<le> high \<Longrightarrow> CLAMP v low high = max low (min high v)"
  by (simp add: CLAMP_def)



lemma example_gap_coords:
  "gtk_popover_get_gap_coords example_env (example_popover\<lparr>final_position := GTK_POS_TOP\<rparr>) =
     \<lparr>initial_x = 88, initial_y = 87, tip_x = 100, tip_y = 99, final_x = 112, final_y = 87\<rparr>"
  by (simp add: gtk_popover_get_gap_coords_def anchor_rect_in_popover_def gap_base_tip_def
      example_defs gtk_popover_get_pointing_to_def get_effective_position_def
      POS_IS_VERTICAL_def CLAMP_def TAIL_GAP_WIDTH_def TAIL_HEIGHT_def)

text \<open>
  Claim C10. Whatever the instance memory held, after \<^verbatim>\<open>gtk_popover_init\<close> the popover
  is modal, prefers TOP, is constrained to the window, is in the state HIDDEN, has no
  tick callback identifier and is not visible; on the zero-filled instance that GObject
  provides no tick callback is registered and the widget is not visible either.
\<close>

theorem new_popover_defaults:
  "modal (gtk_popover_init p) \<and>
   preferred_position (gtk_popover_init p) = GTK_POS_TOP \<and>
   constraint (gtk_popover_init p) = GTK_POPOVER_CONSTRAINT_WINDOW \<and>
   state (gtk_popover_init p) = STATE_HIDDEN \<and>
   tick_id (gtk_popover_init p) = 0 \<and>
   \<not> visible (gtk_popover_init p) \<and>
   tick_callbacks (gtk_popover_init zeroed_instance) = [] \<and>
   \<not> widget_visible (gtk_popover_init zeroed_instance)"
  by (simp add: gtk_popover_init_def zeroed_instance_def)


subsection \<open>What the operations leave alone\<close>

lemma update_position_keeps [simp]:
  "widget (gtk_popover_update_position env p) = widget p"
  "pointing_to (gtk_popover_update_position env p) = pointing_to p"
  "has_pointing_to (gtk_popover_update_position env p) = has_pointing_to p"
  "prev_focus_widget (gtk_popover_update_position env p) = prev_focus_widget p"
  "constraint (gtk_popover_update_position env p) = constraint p"
  "tracker (gtk_popover_update_position env p) = tracker p"
  "preferred_position (gtk_popover_update_position env p) = preferred_position p"
  "modal (gtk_popover_update_position env p) = modal p"
  "state (gtk_popover_update_position env p) = state p"
  "visible (gtk_popover_update_position env p) = visible p"
  "first_frame_skipped (gtk_popover_update_position env p) = first_frame_skipped p"
  "transition_diff (gtk_popover_update_position env p) = transition_diff p"
  "tick_id (gtk_popover_update_position env p) = tick_id p"
  "widget_visible (gtk_popover_update_position env p) = widget_visible p"
  "realized (gtk_popover_update_position env p) = realized p"
  "mapped (gtk_popover_update_position env p) = mapped p"
  "opacity (gtk_popover_update_position env p) = opacity p"
  "closed_emitted (gtk_popover_update_position env p) = closed_emitted p"
  "has_grab (gtk_popover_update_position env p) = has_grab p"
  "window_handlers (gtk_popover_update_position env p) = window_handlers p"
  "input_shape (gtk_popover_update_position env p) = input_shape p"
  "tick_callbacks (gtk_popover_update_position env p) = tick_callbacks p"
  "tick_counter (gtk_popover_update_position env p) = tick_counter p"
  "(window (gtk_popover_update_position env p) = None) = (window p = None)"
  by (simp_all add: gtk_popover_update_position_def Let_def split: option.splits)

lemma modality_keeps [simp]:
  "widget (gtk_popover_apply_modality p m) = widget p"
  "pointing_to (gtk_popover_apply_modality p m) = pointing_to p"
  "has_pointing_to (gtk_popover_apply_modality p m) = has_pointing_to p"
  "tracker (gtk_popover_apply_modality p m) = tracker p"
  "state (gtk_popover_apply_modality p m) = state p"
  "visible (gtk_popover_apply_modality p m) = visible p"
  "first_frame_skipped (gtk_popover_apply_modality p m) = first_frame_skipped p"
  "tick_id (gtk_popover_apply_modality p m) = tick_id p"
  "widget_visible (gtk_popover_apply_modality p m) = widget_visible p"
  "realized (gtk_popover_apply_modality p m) = realized p"
  "mapped (gtk_popover_apply_modality p m) = mapped p"
  "modal (gtk_popover_apply_modality p m) = modal p"
  "closed_emitted (gtk_popover_apply_modality p m) = closed_emitted p"
  "tick_callbacks (gtk_popover_apply_modality p m) = tick_callbacks p"
  "tick_counter (gtk_popover_apply_modality p m) = tick_counter p"
  "input_shape (gtk_popover_apply_modality p m) = input_shape p"
  "(window (gtk_popover_apply_modality p m) = None) = (window p = None)"
  by (simp_all add: gtk_popover_apply_modality_def restore_focus_def popover_unset_prev_focus_def
      gtk_popover_grab_focus_def set_window_focus_def Let_def
      split: option.splits focus_target.splits)

lemma hide_internal_keeps [simp]:
  "widget (gtk_popover_hide_internal p) = widget p"
  "pointing_to (gtk_popover_hide_internal p) = pointing_to p"
  "has_pointing_to (gtk_popover_hide_internal p) = has_pointing_to p"
  "tracker (gtk_popover_hide_internal p) = tracker p"
  "state (gtk_popover_hide_internal p) = state p"
  "first_frame_skipped (gtk_popover_hide_internal p) = first_frame_skipped p"
  "tick_id (gtk_popover_hide_internal p) = tick_id p"
  "widget_visible (gtk_popover_hide_internal p) = widget_visible p"
  "realized (gtk_popover_hide_internal p) = realized p"
  "mapped (gtk_popover_hide_internal p) = mapped p"
  "modal (gtk_popover_hide_internal p) = modal p"
  "tick_callbacks (gtk_popover_hide_internal p) = tick_callbacks p"
  "tick_counter (gtk_popover_hide_internal p) = tick_counter p"
  "(window (gtk_popover_hide_internal p) = None) = (window p = None)"
  "\<not> visible (gtk_popover_hide_internal p)"
  by (simp_all add: gtk_popover_hide_internal_def Let_def)

lemma hide_internal_closed:
  "closed_emitted (gtk_popover_hide_internal p) =
     (if visible p then closed_emitted p + 1 else closed_emitted p)"
  by (simp add: gtk_popover_hide_internal_def Let_def)


lemma stop_transition_keeps [simp]:
  "widget (gtk_popover_stop_transition p) = widget p"
  "pointing_to (gtk_popover_stop_transition p) = pointing_to p"
  "has_pointing_to (gtk_popover_stop_transition p) = has_pointing_to p"
  "tracker (gtk_popover_stop_transition p) = tracker p"
  "state (gtk_popover_stop_transition p) = state p"
  "visible (gtk_popover_stop_transition p) = visible p"
  "first_frame_skipped (gtk_popover_stop_transition p) = first_frame_skipped p"
  "widget_visible (gtk_popover_stop_transition p) = widget_visible p"
  "realized (gtk_popover_stop_transition p) = realized p"
  "mapped (gtk_popover_stop_transition p) = mapped p"
  "modal (gtk_popover_stop_transition p) = modal p"
  "window (gtk_popover_stop_transition p) = window p"
  "closed_emitted (gtk_popover_stop_transition p) = closed_emitted p"
  "has_grab (gtk_popover_stop_transition p) = has_grab p"
  "window_handlers (gtk_popover_stop_transition p) = window_handlers p"
  "prev_focus_widget (gtk_popover_stop_transition p) = prev_focus_widget p"
  "input_shape (gtk_popover_stop_transition p) = input_shape p"
  "tick_counter (gtk_popover_stop_transition p) = tick_counter p"
  "tick_id (gtk_popover_stop_transition p) = 0"
  "tick_callbacks (gtk_popover_stop_transition p) =
     (if tick_id p \<noteq> 0 then removeAll (tick_id p) (tick_callbacks p) else tick_callbacks p)"
  by (simp_all add: gtk_popover_stop_transition_def gtk_widget_remove_tick_callback_def)

lemma start_transition_keeps [simp]:
  "widget (gtk_popover_start_transition p) = widget p"
  "pointing_to (gtk_popover_start_transition p) = pointing_to p"
  "has_pointing_to (gtk_popover_start_transition p) = has_pointing_to p"
  "state (gtk_popover_start_transition p) = state p"
  "visible (gtk_popover_start_transition p) = visible p"
  "widget_visible (gtk_popover_start_transition p) = widget_visible p"
  "realized (gtk_popover_start_transition p) = realized p"
  "mapped (gtk_popover_start_transition p) = mapped p"
  "modal (gtk_popover_start_transition p) = modal p"
  "window (gtk_popover_start_transition p) = window p"
  "closed_emitted (gtk_popover_start_transition p) = closed_emitted p"
  "has_grab (gtk_popover_start_transition p) = has_grab p"
  "window_handlers (gtk_popover_start_transition p) = window_handlers p"
  "prev_focus_widget (gtk_popover_start_transition p) = prev_focus_widget p"
  "input_shape (gtk_popover_start_transition p) = input_shape p"
  "tick_id (gtk_popover_start_transition p) \<noteq> 0"
  by (simp_all add: gtk_popover_start_transition_def gtk_widget_add_tick_callback_def Let_def)


lemma start_transition_running: "tick_id p \<noteq> 0 \<Longrightarrow> gtk_popover_start_transition p = p"
  by (simp add: gtk_popover_start_transition_def)

lemma real_show_keeps [simp]:
  "widget (gtk_widget_real_show env p) = widget p"
  "pointing_to (gtk_widget_real_show env p) = pointing_to p"
  "has_pointing_to (gtk_widget_real_show env p) = has_pointing_to p"
  "tracker (gtk_widget_real_show env p) = tracker p"
  "state (gtk_widget_real_show env p) = state p"
  "visible (gtk_widget_real_show env p) = visible p"
  "first_frame_skipped (gtk_widget_real_show env p) = first_frame_skipped p"
  "tick_id (gtk_widget_real_show env p) = tick_id p"
  "modal (gtk_widget_real_show env p) = modal p"
  "closed_emitted (gtk_widget_real_show env p) = closed_emitted p"
  "tick_callbacks (gtk_widget_real_show env p) = tick_callbacks p"
  "tick_counter (gtk_widget_real_show env p) = tick_counter p"
  "(window (gtk_widget_real_show env p) = None) = (window p = None)"
  "widget_visible (gtk_widget_real_show env p)"
  "realized (gtk_widget_real_show env p) =
     (realized p \<or> (\<not> widget_visible p \<and> parent_mapped env \<and> \<not> mapped p))"
  by (auto simp add: gtk_widget_real_show_def gtk_widget_map_def gtk_popover_map_def Let_def)

lemma real_hide_keeps [simp]:
  "widget (gtk_widget_real_hide p) = widget p"
  "pointing_to (gtk_widget_real_hide p) = pointing_to p"
  "has_pointing_to (gtk_widget_real_hide p) = has_pointing_to p"
  "tracker (gtk_widget_real_hide p) = tracker p"
  "state (gtk_widget_real_hide p) = state p"
  "visible (gtk_widget_real_hide p) = visible p"
  "first_frame_skipped (gtk_widget_real_hide p) = first_frame_skipped p"
  "tick_id (gtk_widget_real_hide p) = tick_id p"
  "modal (gtk_widget_real_hide p) = modal p"
  "window (gtk_widget_real_hide p) = window p"
  "realized (gtk_widget_real_hide p) = realized p"
  "closed_emitted (gtk_widget_real_hide p) = closed_emitted p"
  "has_grab (gtk_widget_real_hide p) = has_grab p"
  "window_handlers (gtk_widget_real_hide p) = window_handlers p"
  "prev_focus_widget (gtk_widget_real_hide p) = prev_focus_widget p"
  "input_shape (gtk_widget_real_hide p) = input_shape p"
  "tick_callbacks (gtk_widget_real_hide p) = tick_callbacks p"
  "tick_counter (gtk_widget_real_hide p) = tick_counter p"
  "transition_diff (gtk_widget_real_hide p) = transition_diff p"
  "opacity (gtk_widget_real_hide p) = opacity p"
  "\<not> widget_visible (gtk_widget_real_hide p)"
  by (simp_all add: gtk_widget_real_hide_def gtk_widget_unmap_def gtk_popover_unmap_def Let_def)

lemma popover_show_effect [simp]:
  "widget (gtk_popover_show env p) = widget p"
  "pointing_to (gtk_popover_show env p) = pointing_to p"
  "has_pointing_to (gtk_popover_show env p) = has_pointing_to p"
  "tracker (gtk_popover_show env p) = tracker p"
  "first_frame_skipped (gtk_popover_show env p) = first_frame_skipped p"
  "tick_id (gtk_popover_show env p) = tick_id p"
  "modal (gtk_popover_show env p) = modal p"
  "closed_emitted (gtk_popover_show env p) = closed_emitted p"
  "tick_callbacks (gtk_popover_show env p) = tick_callbacks p"
  "tick_counter (gtk_popover_show env p) = tick_counter p"
  "(window (gtk_popover_show env p) = None) = (window p = None)"
  "state (gtk_popover_show env p) = STATE_SHOWN"
  "visible (gtk_popover_show env p)"
  "widget_visible (gtk_popover_show env p)"
  "realized (gtk_popover_show env p) =
     (realized p \<or> (\<not> widget_visible p \<and> parent_mapped env \<and> \<not> mapped p))"
  by (simp_all add: gtk_popover_show_def Let_def)

lemma popover_hide_effect [simp]:
  "widget (gtk_popover_hide p) = widget p"
  "pointing_to (gtk_popover_hide p) = pointing_to p"
  "has_pointing_to (gtk_popover_hide p) = has_pointing_to p"
  "modal (gtk_popover_hide p) = modal p"
  "realized (gtk_popover_hide p) = realized p"
  "tick_counter (gtk_popover_hide p) = tick_counter p"
  "first_frame_skipped (gtk_popover_hide p) = first_frame_skipped p"
  "(window (gtk_popover_hide p) = None) = (window p = None)"
  "state (gtk_popover_hide p) = STATE_HIDDEN"
  "\<not> visible (gtk_popover_hide p)"
  "\<not> widget_visible (gtk_popover_hide p)"
  "tick_id (gtk_popover_hide p) = 0"
  "transition_diff (gtk_popover_hide p) = 0"
  "opacity (gtk_popover_hide p) = 1"
  "tracker (gtk_popover_hide p) = gtk_progress_tracker_finish (tracker p)"
  "tick_callbacks (gtk_popover_hide p) =
     (if tick_id p \<noteq> 0 then removeAll (tick_id p) (tick_callbacks p) else tick_callbacks p)"
  "closed_emitted (gtk_popover_hide p) =
     (if visible p then closed_emitted p + 1 else closed_emitted p)"
  "has_grab (gtk_popover_hide p) = has_grab (gtk_popover_hide_internal p)"
  "window_handlers (gtk_popover_hide p) = window_handlers (gtk_popover_hide_internal p)"
  "prev_focus_widget (gtk_popover_hide p) = prev_focus_widget (gtk_popover_hide_internal p)"
  "input_shape (gtk_popover_hide p) = input_shape (gtk_popover_hide_internal p)"
  by (simp_all add: gtk_popover_hide_def Let_def hide_internal_closed)


lemma set_window_focus_keeps [simp]:
  "has_grab (set_window_focus f p) = has_grab p"
  "window_handlers (set_window_focus f p) = window_handlers p"
  "prev_focus_widget (set_window_focus f p) = prev_focus_widget p"
  by (simp_all add: set_window_focus_def split: option.splits)

lemma restore_focus_keeps [simp]:
  "has_grab (restore_focus p) = has_grab p"
  "window_handlers (restore_focus p) = window_handlers p"
  "prev_focus_widget (restore_focus p) = prev_focus_widget p"
  by (simp_all add: restore_focus_def gtk_popover_grab_focus_def split: focus_target.splits)

lemma unset_prev_focus_effect [simp]:
  "has_grab (popover_unset_prev_focus p) = has_grab p"
  "window_handlers (popover_unset_prev_focus p) = window_handlers p"
  "prev_focus_widget (popover_unset_prev_focus p) = FOCUS_NONE"
  by (simp_all add: popover_unset_prev_focus_def)




lemma hide_internal_idle: "\<not> visible p \<Longrightarrow> gtk_popover_hide_internal p = p"
  by (simp add: gtk_popover_hide_internal_def)

lemma widget_hide_visible: "widget_visible p \<Longrightarrow> gtk_widget_hide p = gtk_popover_hide p"
  by (simp add: gtk_widget_hide_def)

subsection \<open>Popdown\<close>

lemma popdown_idle:
  "state p = STATE_HIDING \<or> state p = STATE_HIDDEN \<Longrightarrow> gtk_popover_popdown env p = p"
  by (auto simp add: gtk_popover_popdown_def)

lemma popdown_animated:
  assumes "state p = STATE_SHOWING \<or> state p = STATE_SHOWN"
    and "transitions_enabled env" and "realized p"
  shows "gtk_popover_popdown env p =
         gtk_popover_hide_internal (gtk_popover_start_transition (p\<lparr>state := STATE_HIDING\<rparr>))"
  using assms by (auto simp add: gtk_popover_popdown_def gtk_popover_set_state_def Let_def)









subsection \<open>Pointing rectangle\<close>

lemma widget_show_hide_anchor [simp]:
  "widget (gtk_widget_show env p) = widget p"
  "pointing_to (gtk_widget_show env p) = pointing_to p"
  "has_pointing_to (gtk_widget_show env p) = has_pointing_to p"
  "widget (gtk_widget_hide p) = widget p"
  "pointing_to (gtk_widget_hide p) = pointing_to p"
  "has_pointing_to (gtk_widget_hide p) = has_pointing_to p"
  "widget (gtk_widget_set_visible env p v) = widget p"
  "pointing_to (gtk_widget_set_visible env p v) = pointing_to p"
  "has_pointing_to (gtk_widget_set_visible env p v) = has_pointing_to p"
  by (simp_all add: gtk_widget_show_def gtk_widget_hide_def gtk_widget_set_visible_def)

lemma set_state_anchor [simp]:
  "widget (gtk_popover_set_state env p st) = widget p"
  "pointing_to (gtk_popover_set_state env p st) = pointing_to p"
  "has_pointing_to (gtk_popover_set_state env p st) = has_pointing_to p"
  by (simp_all add: gtk_popover_set_state_def Let_def)

lemma show_animate_cb_anchor [simp]:
  "widget (snd (show_animate_cb env p t)) = widget p"
  "pointing_to (snd (show_animate_cb env p t)) = pointing_to p"
  "has_pointing_to (snd (show_animate_cb env p t)) = has_pointing_to p"
  by (simp_all add: show_animate_cb_def Let_def)

lemma remove_tick_callback_anchor [simp]:
  "widget (gtk_widget_remove_tick_callback p i) = widget p"
  "pointing_to (gtk_widget_remove_tick_callback p i) = pointing_to p"
  "has_pointing_to (gtk_widget_remove_tick_callback p i) = has_pointing_to p"
  by (simp_all add: gtk_widget_remove_tick_callback_def)

lemma run_tick_callbacks_anchor:
  "widget (run_tick_callbacks env t ids p) = widget p \<and>
   pointing_to (run_tick_callbacks env t ids p) = pointing_to p \<and>
   has_pointing_to (run_tick_callbacks env t ids p) = has_pointing_to p"
  by (induction ids arbitrary: p) (simp_all add: Let_def)

lemma popup_popdown_anchor [simp]:
  "widget (gtk_popover_popup env p) = widget p"
  "pointing_to (gtk_popover_popup env p) = pointing_to p"
  "has_pointing_to (gtk_popover_popup env p) = has_pointing_to p"
  "widget (gtk_popover_popdown env p) = widget p"
  "pointing_to (gtk_popover_popdown env p) = pointing_to p"
  "has_pointing_to (gtk_popover_popdown env p) = has_pointing_to p"
  "widget (gtk_popover_parent_unmap env p) = widget p"
  "pointing_to (gtk_popover_parent_unmap env p) = pointing_to p"
  "has_pointing_to (gtk_popover_parent_unmap env p) = has_pointing_to p"
  "widget (gtk_popover_set_position env p s) = widget p"
  "pointing_to (gtk_popover_set_position env p s) = pointing_to p"
  "has_pointing_to (gtk_popover_set_position env p s) = has_pointing_to p"
  by (simp_all add: gtk_popover_popup_def gtk_popover_popdown_def gtk_popover_parent_unmap_def
      gtk_popover_set_position_def gtk_popover_update_preferred_position_def Let_def)

lemma apply_op_anchor:
  "pointing_to_of_op op = None \<Longrightarrow>
   widget (apply_op env op p) = widget p \<and>
   pointing_to (apply_op env op p) = pointing_to p \<and>
   has_pointing_to (apply_op env op p) = has_pointing_to p"
  by (cases op)
     (simp_all add: gtk_popover_set_pointing_to_def frame_tick_def run_tick_callbacks_anchor)

lemma apply_op_set:
  "pointing_to_of_op op = Some r \<Longrightarrow>
   widget (apply_op env op p) = widget p \<and>
   pointing_to (apply_op env op p) = r \<and>
   has_pointing_to (apply_op env op p)"
  by (cases op)
     (simp_all add: gtk_popover_set_pointing_to_def gtk_popover_update_pointing_to_def)

lemma run_ops_widget: "widget (run_ops ops p) = widget p"
proof (induction ops arbitrary: p)
  case Nil
  show ?case by simp
next
  case (Cons eo rest)
  show ?case
    using apply_op_anchor [of "snd eo" "fst eo" p] apply_op_set [of "snd eo" _ "fst eo" p]
    by (cases "pointing_to_of_op (snd eo)") (simp_all add: Cons.IH)
qed

lemma run_ops_never_set:
  "last_pointing_to ops = None \<Longrightarrow>
   pointing_to (run_ops ops p) = pointing_to p \<and>
   has_pointing_to (run_ops ops p) = has_pointing_to p"
proof (induction ops arbitrary: p)
  case Nil
  show ?case by simp
next
  case (Cons eo rest)
  from Cons.prems have r: "last_pointing_to rest = None" and o: "pointing_to_of_op (snd eo) = None"
    by (simp_all split: option.splits)
  show ?case
    using Cons.IH [OF r, of "apply_op (fst eo) (snd eo) p"] apply_op_anchor [OF o, of "fst eo" p]
    by simp
qed

lemma run_ops_last_set:
  "last_pointing_to ops = Some r \<Longrightarrow>
   pointing_to (run_ops ops p) = r \<and> has_pointing_to (run_ops ops p)"
proof (induction ops arbitrary: p)
  case Nil
  then show ?case by simp
next
  case (Cons eo rest)
  show ?case
  proof (cases "last_pointing_to rest")
    case None
    with Cons.prems have o: "pointing_to_of_op (snd eo) = Some r" by simp
    show ?thesis
      using run_ops_never_set [OF None, of "apply_op (fst eo) (snd eo) p"]
        apply_op_set [OF o, of "fst eo" p]
      by simp
  next
    case (Some r')
    with Cons.prems have "r' = r" by simp
    with Some Cons.IH [of "apply_op (fst eo) (snd eo) p"] show ?thesis by simp
  qed
qed

text \<open>
  Claim C9. After any sequence of operations on any popover: if the sequence contains a
  \<^verbatim>\<open>gtk_popover_set_pointing_to\<close> call with a rectangle, \<^verbatim>\<open>gtk_popover_get_pointing_to\<close>
  returns \<^verbatim>\<open>TRUE\<close> and the rectangle of the last such call (in particular right after
  the call); if the sequence contains none and no rectangle was set before it, as on a
  new popover, it returns \<^verbatim>\<open>FALSE\<close> and the allocation of the anchor widget the popover
  is attached to.
\<close>

theorem pointing_to_round_trip:
  "(last_pointing_to ops = Some r \<longrightarrow>
      gtk_popover_get_pointing_to (run_ops ops p) rect = (True, r)) \<and>
   (last_pointing_to ops = None \<and> \<not> has_pointing_to p \<and> widget p = Some a \<longrightarrow>
      gtk_popover_get_pointing_to (run_ops ops p) rect = (False, own_allocation a)) \<and>
   gtk_popover_get_pointing_to (gtk_popover_set_pointing_to env p (Some r)) rect = (True, r) \<and>
   \<not> has_pointing_to (gtk_popover_init zeroed_instance)"
proof (intro conjI impI)
  assume "last_pointing_to ops = Some r"
  from run_ops_last_set [OF this, of p]
  show "gtk_popover_get_pointing_to (run_ops ops p) rect = (True, r)"
    by (simp add: gtk_popover_get_pointing_to_def)
next
  assume a: "last_pointing_to ops = None \<and> \<not> has_pointing_to p \<and> widget p = Some a"
  then have "last_pointing_to ops = None" by simp
  from run_ops_never_set [OF this, of p] a
  show "gtk_popover_get_pointing_to (run_ops ops p) rect = (False, own_allocation a)"
    by (simp add: gtk_popover_get_pointing_to_def run_ops_widget)
next
  show "gtk_popover_get_pointing_to (gtk_popover_set_pointing_to env p (Some r)) rect = (True, r)"
    by (simp add: gtk_popover_get_pointing_to_def gtk_popover_set_pointing_to_def
        gtk_popover_update_pointing_to_def)
next
  show "\<not> has_pointing_to (gtk_popover_init zeroed_instance)"
    by (simp add: gtk_popover_init_def zeroed_instance_def)
qed

text \<open>
  On the new attached popover: two rectangles set with a popup in between and a frame
  after, and a popup with a frame and no rectangle set.
\<close>

theorem pointing_to_round_trip_witness:
  "last_pointing_to
     [(example_env, OP_SET_POINTING_TO (Some zero_rect)), (example_env, OP_POPUP),
      (example_env, OP_SET_POINTING_TO (Some (pointing_to near_top_popover))),
      (example_env, OP_FRAME 0)] = Some (pointing_to near_top_popover) \<and>
   gtk_popover_get_pointing_to
     (run_ops
        [(example_env, OP_SET_POINTING_TO (Some zero_rect)), (example_env, OP_POPUP),
         (example_env, OP_SET_POINTING_TO (Some (pointing_to near_top_popover))),
         (example_env, OP_FRAME 0)] attached_popover) zero_rect =
     (True, \<lparr>rect_x = 100, rect_y = 5, rect_width = 20, rect_height = 20\<rparr>) \<and>
   last_pointing_to [(example_env, OP_POPUP), (example_env, OP_FRAME 0)] = None \<and>
   \<not> has_pointing_to attached_popover \<and> widget attached_popover = Some example_anchor \<and>
   gtk_popover_get_pointing_to
     (run_ops [(example_env, OP_POPUP), (example_env, OP_FRAME 0)] attached_popover) zero_rect =
     (False, \<lparr>rect_x = 0, rect_y = 0, rect_width = 300, rect_height = 200\<rparr>)"
proof -
  have l1: "last_pointing_to
     [(example_env, OP_SET_POINTING_TO (Some zero_rect)), (example_env, OP_POPUP),
      (example_env, OP_SET_POINTING_TO (Some (pointing_to near_top_popover))),
      (example_env, OP_FRAME 0)] = Some (pointing_to near_top_popover)"
    by simp
  have l2: "last_pointing_to [(example_env, OP_POPUP), (example_env, OP_FRAME 0)] = None"
    by simp
  have a: "\<not> has_pointing_to attached_popover" "widget attached_popover = Some example_anchor"
    by (simp_all add: attached_popover_def example_defs)
  have r: "pointing_to near_top_popover =
      \<lparr>rect_x = 100, rect_y = 5, rect_width = 20, rect_height = 20\<rparr>"
    "own_allocation example_anchor =
      \<lparr>rect_x = 0, rect_y = 0, rect_width = 300, rect_height = 200\<rparr>"
    by (simp_all add: example_defs)
  from pointing_to_round_trip [of
      "[(example_env, OP_SET_POINTING_TO (Some zero_rect)), (example_env, OP_POPUP),
        (example_env, OP_SET_POINTING_TO (Some (pointing_to near_top_popover))),
        (example_env, OP_FRAME 0)]"
      "pointing_to near_top_popover" attached_popover zero_rect example_anchor example_env]
    pointing_to_round_trip [of "[(example_env, OP_POPUP), (example_env, OP_FRAME 0)]"
      "pointing_to near_top_popover" attached_popover zero_rect example_anchor example_env]
    l1 l2 a r
  show ?thesis by simp
qed

subsection \<open>Progress tracker\<close>

lemma advance_frame_keeps [simp]:
  "is_running (gtk_progress_tracker_advance_frame tr f) = is_running tr"
  "duration (gtk_progress_tracker_advance_frame tr f) = duration tr"
  "iteration_count (gtk_progress_tracker_advance_frame tr f) = iteration_count tr"
  by (simp_all add: gtk_progress_tracker_advance_frame_def split: option.splits)

lemma advance_frame_iteration:
  "iteration tr \<le> iteration (gtk_progress_tracker_advance_frame tr f)"
  by (simp add: gtk_progress_tracker_advance_frame_def split: option.splits)





lemma ease_out_cubic_ends [simp]: "ease_out_cubic 0 = 0" "ease_out_cubic 1 = 1"
  by (simp_all add: ease_out_cubic_def)





lemma started_tracker [simp]:
  "is_running (gtk_progress_tracker_start d n)"
  "iteration (gtk_progress_tracker_start d n) = 0"
  "iteration_count (gtk_progress_tracker_start d n) = n"
  "duration (gtk_progress_tracker_start d n) = d"
  "last_frame_time (gtk_progress_tracker_start d n) = None"
  by (simp_all add: gtk_progress_tracker_start_def)


lemma finished_tracker_state [simp]:
  "gtk_progress_tracker_get_state (gtk_progress_tracker_finish tr) = GTK_PROGRESS_STATE_AFTER"
  by (simp add: gtk_progress_tracker_get_state_def gtk_progress_tracker_finish_def)

lemma tracker_after_advance_keeps [simp]:
  "is_running (tracker_after_advance p f) = is_running (tracker p)"
  "duration (tracker_after_advance p f) = duration (tracker p)"
  "iteration_count (tracker_after_advance p f) = iteration_count (tracker p)"
  by (simp_all add: tracker_after_advance_def)

lemma tracker_after_advance_iteration:
  "iteration (tracker p) \<le> iteration (tracker_after_advance p f)"
  by (simp add: tracker_after_advance_def advance_frame_iteration)

subsection \<open>The tick callback\<close>

lemma animate_values_keeps [simp]:
  "state (animate_values p f) = state p"
  "tracker (animate_values p f) = tracker_after_advance p f"
  "first_frame_skipped (animate_values p f)"
  "visible (animate_values p f) = visible p"
  "widget_visible (animate_values p f) = widget_visible p"
  "realized (animate_values p f) = realized p"
  "mapped (animate_values p f) = mapped p"
  "modal (animate_values p f) = modal p"
  "window (animate_values p f) = window p"
  "tick_id (animate_values p f) = tick_id p"
  "tick_callbacks (animate_values p f) = tick_callbacks p"
  "tick_counter (animate_values p f) = tick_counter p"
  "closed_emitted (animate_values p f) = closed_emitted p"
  by (simp_all add: animate_values_def tracker_after_advance_def Let_def)



lemma show_animate_cb_unfold:
  "show_animate_cb env p f =
     (if gtk_progress_tracker_get_state (tracker_after_advance p f) = GTK_PROGRESS_STATE_AFTER then
        (False,
         (if state p = STATE_SHOWING then
            (if \<not> visible (gtk_popover_set_state env
                    (gtk_popover_update_position env (animate_values p f)) STATE_SHOWN)
             then gtk_popover_set_state env
                    (gtk_popover_set_state env
                       (gtk_popover_update_position env (animate_values p f)) STATE_SHOWN)
                    STATE_HIDING
             else gtk_popover_set_state env
                    (gtk_popover_update_position env (animate_values p f)) STATE_SHOWN)
          else gtk_widget_hide (gtk_popover_update_position env (animate_values p f)))
         \<lparr>tick_id := 0\<rparr>)
      else (True, gtk_popover_update_position env (animate_values p f)))"
  by (simp add: show_animate_cb_def animate_values_def eased_progress_def
      tracker_after_advance_def TRANSITION_DIFF_def Let_def)

lemma show_animate_cb_continues:
  "fst (show_animate_cb env p f) \<longleftrightarrow>
   gtk_progress_tracker_get_state (tracker_after_advance p f) \<noteq> GTK_PROGRESS_STATE_AFTER"
  by (simp add: show_animate_cb_unfold)

lemma show_animate_cb_continued:
  "fst (show_animate_cb env p f) \<Longrightarrow>
   snd (show_animate_cb env p f) = gtk_popover_update_position env (animate_values p f)"
  by (simp add: show_animate_cb_unfold split: if_splits)




lemma widget_show_opacity [simp]:
  "opacity (gtk_popover_show env p) = opacity p"
  "opacity (gtk_widget_show env p) = opacity p"
  by (simp_all add: gtk_widget_show_def gtk_popover_show_def gtk_widget_real_show_def
      gtk_widget_map_def gtk_popover_map_def gtk_popover_apply_modality_def restore_focus_def
      popover_unset_prev_focus_def gtk_popover_grab_focus_def set_window_focus_def Let_def
      split: option.splits)

lemma start_transition_opacity [simp]:
  "opacity (gtk_popover_start_transition p) = opacity p"
  "opacity (gtk_popover_stop_transition p) = opacity p"
  by (simp_all add: gtk_popover_start_transition_def gtk_popover_stop_transition_def
      gtk_widget_add_tick_callback_def gtk_widget_remove_tick_callback_def Let_def)


lemma set_state_shown:
  "state (gtk_popover_set_state env p STATE_SHOWN) = STATE_SHOWN"
  "visible p \<Longrightarrow> visible (gtk_popover_set_state env p STATE_SHOWN)"
  by (simp_all add: gtk_popover_set_state_def gtk_widget_set_visible_def gtk_widget_show_def
      Let_def)







subsection \<open>Frames on the example popover\<close>

lemma frame_tick_single:
  "tick_callbacks p = [i] \<Longrightarrow>
   frame_tick env f p =
     (if fst (show_animate_cb env p f) then snd (show_animate_cb env p f)
      else gtk_widget_remove_tick_callback (snd (show_animate_cb env p f)) i)"
  by (simp add: frame_tick_def Let_def)

lemma frame_tick_idle: "tick_callbacks p = [] \<Longrightarrow> frame_tick env f p = p"
  by (simp add: frame_tick_def)













subsection \<open>Popup, popdown and the frames between and after\<close>

lemma run_frames_append: "run_frames env (fs @ gs) p = run_frames env gs (run_frames env fs p)"
  by (induction fs arbitrary: p) simp_all

lemma resting_frame: "resting p \<Longrightarrow> frame_tick env f p = p"
  by (simp add: resting_def frame_tick_idle)

lemma resting_frames: "resting p \<Longrightarrow> run_frames env fs p = p"
  by (induction fs) (simp_all add: resting_frame)


lemma animating_continue:
  assumes "animating st now p" and "f \<le> now" and "fst (show_animate_cb env p f)"
  shows "animating st now (frame_tick env f p)"
    and "visible (frame_tick env f p) = visible p"
    and "closed_emitted (frame_tick env f p) = closed_emitted p"
    and "first_frame_skipped (frame_tick env f p)"
    and "first_frame_skipped p \<Longrightarrow>
         (case last_frame_time (tracker p) of None \<Rightarrow> True | Some prev_time \<Rightarrow> prev_time \<le> f) \<Longrightarrow>
         last_frame_time (tracker (frame_tick env f p)) = Some f"
proof -
  from assms(1) have c: "tick_callbacks p = [tick_id p]"
    by (simp add: animating_def)
  have q: "frame_tick env f p = gtk_popover_update_position env (animate_values p f)"
    using assms(3) by (simp add: frame_tick_single [OF c] show_animate_cb_continued)
  from assms(3) have n: "iteration (tracker_after_advance p f) < 1"
    using assms(1)
    by (simp add: show_animate_cb_continues gtk_progress_tracker_get_state_def animating_def
        split: if_splits)
  have i: "0 \<le> iteration (tracker_after_advance p f)"
    using tracker_after_advance_iteration [of p f] assms(1) by (simp add: animating_def)
  have l: "case last_frame_time (tracker_after_advance p f) of
             None \<Rightarrow> True | Some prev_time \<Rightarrow> prev_time \<le> now"
    using assms(1,2)
    by (simp add: animating_def tracker_after_advance_def gtk_progress_tracker_advance_frame_def
        split: option.splits)
  show "animating st now (frame_tick env f p)"
    unfolding q using assms(1) n i l by (simp add: animating_def)
  show "visible (frame_tick env f p) = visible p"
    unfolding q by simp
  show "closed_emitted (frame_tick env f p) = closed_emitted p"
    unfolding q by simp
  show "first_frame_skipped (frame_tick env f p)"
    unfolding q by simp
  show "first_frame_skipped p \<Longrightarrow>
         (case last_frame_time (tracker p) of None \<Rightarrow> True | Some prev_time \<Rightarrow> prev_time \<le> f) \<Longrightarrow>
         last_frame_time (tracker (frame_tick env f p)) = Some f"
    unfolding q using assms(1)
    by (simp add: animating_def tracker_after_advance_def gtk_progress_tracker_advance_frame_def
        split: option.splits)
qed


lemma hiding_end:
  assumes "animating STATE_HIDING now p" and "\<not> visible p"
    and "\<not> fst (show_animate_cb env p f)"
  shows "resting (frame_tick env f p) \<and> closed_emitted (frame_tick env f p) = closed_emitted p"
proof -
  from assms(1) have c: "tick_callbacks p = [tick_id p]" and s: "state p = STATE_HIDING"
    and w: "widget_visible p" and t: "tick_id p \<noteq> 0"
    by (simp_all add: animating_def)
  let ?p3 = "gtk_popover_update_position env (animate_values p f)"
  have "snd (show_animate_cb env p f) = (gtk_popover_hide ?p3)\<lparr>tick_id := 0\<rparr>"
    using assms(3) s w unfolding show_animate_cb_unfold
    by (simp add: widget_hide_visible split: if_splits)
  with assms(2,3) c t show ?thesis
    by (simp add: frame_tick_single [OF c] gtk_widget_remove_tick_callback_def resting_def)
qed


lemma hiding_frames:
  assumes "animating STATE_HIDING now p" and "\<not> visible p" and "\<forall>f \<in> set fs. f \<le> now"
  shows "(animating STATE_HIDING now (run_frames env fs p) \<and> \<not> visible (run_frames env fs p) \<or>
          resting (run_frames env fs p)) \<and>
         closed_emitted (run_frames env fs p) = closed_emitted p"
  using assms
proof (induction fs arbitrary: p)
  case Nil
  then show ?case by simp
next
  case (Cons f fs)
  from Cons.prems(3) have f: "f \<le> now" and fs: "\<forall>g \<in> set fs. g \<le> now" by simp_all
  show ?case
  proof (cases "fst (show_animate_cb env p f)")
    case True
    from animating_continue(1,2,3) [OF Cons.prems(1) f True] Cons.prems(2)
    have "animating STATE_HIDING now (frame_tick env f p)" "\<not> visible (frame_tick env f p)"
      "closed_emitted (frame_tick env f p) = closed_emitted p" by simp_all
    with Cons.IH [OF _ _ fs, of "frame_tick env f p"] show ?thesis by simp
  next
    case False
    from hiding_end [OF Cons.prems(1,2) False] show ?thesis
      by (simp add: resting_frames)
  qed
qed


lemma animating_later: "animating st now p \<Longrightarrow> now \<le> later \<Longrightarrow> animating st later p"
  by (auto simp add: animating_def split: option.splits)



lemma tick_ends:
  assumes "animating st now p" and "first_frame_skipped p"
    and "last_frame_time (tracker p) = Some b" and "b + TRANSITION_DURATION \<le> c"
  shows "\<not> fst (show_animate_cb env p c)"
proof -
  have d: "(0::int) \<le> TRANSITION_DURATION" "max TRANSITION_DURATION (1::int) = TRANSITION_DURATION"
    by (simp_all add: TRANSITION_DURATION_def)
  have "real_of_int TRANSITION_DURATION \<le> real_of_int c - real_of_int b"
    using assms(4) by linarith
  then have o: "1 \<le> (real_of_int c - real_of_int b) / real_of_int TRANSITION_DURATION"
    by (simp add: TRANSITION_DURATION_def)
  from assms(4) d have n: "\<not> c < b" by simp
  from assms(1) have i: "0 \<le> iteration (tracker p)" "iteration_count (tracker p) = 1"
    "is_running (tracker p)" "duration (tracker p) = TRANSITION_DURATION"
    by (simp_all add: animating_def)
  have "iteration (tracker_after_advance p c) =
        iteration (tracker p) + (real_of_int c - real_of_int b) / real_of_int TRANSITION_DURATION"
    using assms(2,3) n i d
    by (simp add: tracker_after_advance_def gtk_progress_tracker_advance_frame_def)
  with o i have "iteration_count (tracker p) \<le> iteration (tracker_after_advance p c)"
    by simp
  then show ?thesis
    by (simp add: show_animate_cb_continues gtk_progress_tracker_get_state_def)
qed

lemma hiding_completes:
  assumes "animating STATE_HIDING now p" and "\<not> visible p"
    and "a \<le> b" and "now \<le> b" and "b + TRANSITION_DURATION \<le> c"
  shows "resting (run_frames env [a, b, c] p) \<and>
         closed_emitted (run_frames env [a, b, c] p) = closed_emitted p"
proof (cases "fst (show_animate_cb env p a)")
  case False
  from hiding_end [OF assms(1,2) False] show ?thesis
    by (simp add: resting_frame)
next
  case True
  let ?p1 = "frame_tick env a p"
  from assms(1,4) have ab: "animating STATE_HIDING b p" by (rule animating_later)
  from animating_continue(1,2,3,4) [OF ab assms(3) True] assms(2)
  have p1: "animating STATE_HIDING b ?p1" "\<not> visible ?p1"
    "closed_emitted ?p1 = closed_emitted p" "first_frame_skipped ?p1" by simp_all
  show ?thesis
  proof (cases "fst (show_animate_cb env ?p1 b)")
    case False
    from hiding_end [OF p1(1,2) False] p1(3) show ?thesis
      by (simp add: resting_frame)
  next
    case True
    let ?p2 = "frame_tick env b ?p1"
    from p1(1) have l: "case last_frame_time (tracker ?p1) of
        None \<Rightarrow> True | Some prev_time \<Rightarrow> prev_time \<le> b"
      by (simp add: animating_def)
    from animating_continue(1,2,3,4) [OF p1(1) order_refl True] p1(2,3)
      animating_continue(5) [OF p1(1) order_refl True p1(4) l]
    have p2: "animating STATE_HIDING b ?p2" "\<not> visible ?p2"
      "closed_emitted ?p2 = closed_emitted p" "first_frame_skipped ?p2"
      "last_frame_time (tracker ?p2) = Some b" by simp_all
    from tick_ends [OF p2(1,4,5) assms(5)]
    have "\<not> fst (show_animate_cb env ?p2 c)" .
    from hiding_end [OF p2(1,2) this] p2(3) show ?thesis by simp
  qed
qed





subsection \<open>The widget is visible outside the state HIDDEN\<close>

lemma widget_shown_init: "widget_shown (gtk_popover_init p)"
  by (simp add: widget_shown_def gtk_popover_init_def)

lemma widget_shown_show: "widget_shown (gtk_widget_show env p)"
  by (simp add: widget_shown_def gtk_widget_show_def)

lemma widget_shown_hide: "widget_shown p \<Longrightarrow> widget_shown (gtk_widget_hide p)"
  by (auto simp add: widget_shown_def gtk_widget_hide_def)

lemma widget_shown_set_state:
  assumes "widget_shown p" and "st = STATE_SHOWING \<or> st = STATE_HIDING \<longrightarrow> widget_visible p"
  shows "widget_shown (gtk_popover_set_state env p st)"
  using assms
  by (cases st)
     (auto simp add: widget_shown_def gtk_popover_set_state_def gtk_widget_set_visible_def
       gtk_widget_show_def gtk_widget_hide_def Let_def)

lemma widget_shown_update_position:
  "widget_shown (gtk_popover_update_position env p) = widget_shown p"
  by (simp add: widget_shown_def)

lemma widget_shown_hide_internal:
  "widget_shown (gtk_popover_hide_internal p) = widget_shown p"
  by (simp add: widget_shown_def)

lemma widget_shown_popup: "widget_shown p \<Longrightarrow> widget_shown (gtk_popover_popup env p)"
proof -
  assume a: "widget_shown p"
  have "widget_visible (gtk_widget_show env p)"
    by (simp add: gtk_widget_show_def)
  from widget_shown_set_state [OF widget_shown_show, of STATE_SHOWING env p env] this a
  show ?thesis
    by (simp add: gtk_popover_popup_def Let_def widget_shown_show)
qed

lemma widget_shown_popdown: "widget_shown p \<Longrightarrow> widget_shown (gtk_popover_popdown env p)"
proof -
  assume a: "widget_shown p"
  show ?thesis
  proof (cases "state p = STATE_HIDING \<or> state p = STATE_HIDDEN")
    case True
    with a show ?thesis by (simp add: popdown_idle)
  next
    case False
    with a have w: "widget_visible p" by (auto simp add: widget_shown_def)
    from widget_shown_set_state [OF a, of STATE_HIDING env] w widget_shown_hide [OF a] False
    show ?thesis
      by (simp add: gtk_popover_popdown_def Let_def widget_shown_hide_internal)
  qed
qed

lemma widget_shown_parent_unmap:
  "widget_shown p \<Longrightarrow> widget_shown (gtk_popover_parent_unmap env p)"
proof -
  assume a: "widget_shown p"
  have "state p = STATE_SHOWN \<Longrightarrow> widget_shown (gtk_popover_set_state env p STATE_HIDING)"
    using widget_shown_set_state [OF a, of STATE_HIDING env] a by (simp add: widget_shown_def)
  with a show ?thesis
    by (auto simp add: gtk_popover_parent_unmap_def widget_shown_def)
qed

lemma widget_shown_callback:
  assumes "widget_shown p"
  shows "widget_shown (snd (show_animate_cb env p f))"
proof -
  let ?p3 = "gtk_popover_update_position env (animate_values p f)"
  let ?q = "gtk_popover_set_state env ?p3 STATE_SHOWN"
  have p3: "widget_shown ?p3"
    using assms by (simp add: widget_shown_def)
  have q: "widget_shown ?q"
    using widget_shown_set_state [OF p3, of STATE_SHOWN env] by simp
  have "state ?q = STATE_SHOWN"
    by (simp add: set_state_shown)
  with q have "widget_visible ?q"
    by (simp add: widget_shown_def)
  with widget_shown_set_state [OF q, of STATE_HIDING env]
  have h: "widget_shown (gtk_popover_set_state env ?q STATE_HIDING)" by simp
  have e: "\<And>x. widget_shown (x\<lparr>tick_id := 0\<rparr>) = widget_shown x"
    by (simp add: widget_shown_def)
  from p3 q h widget_shown_hide [OF p3] show ?thesis
    unfolding show_animate_cb_unfold by (simp add: e)
qed

lemma widget_shown_callbacks:
  "widget_shown p \<Longrightarrow> widget_shown (run_tick_callbacks env f ids p)"
proof (induction ids arbitrary: p)
  case Nil
  then show ?case by simp
next
  case (Cons i ids)
  have e: "\<And>x. widget_shown (gtk_widget_remove_tick_callback x i) = widget_shown x"
    by (simp add: widget_shown_def gtk_widget_remove_tick_callback_def)
  from widget_shown_callback [OF Cons.prems, of env f] Cons.IH Cons.prems show ?case
    by (simp add: Let_def e)
qed

lemma widget_shown_op: "widget_shown p \<Longrightarrow> widget_shown (apply_op env op p)"
  by (cases op)
     (simp_all add: widget_shown_show widget_shown_hide widget_shown_popup widget_shown_popdown
       widget_shown_parent_unmap widget_shown_callbacks frame_tick_def
       widget_shown_update_position gtk_popover_set_pointing_to_def gtk_popover_set_position_def
       gtk_popover_update_pointing_to_def gtk_popover_update_preferred_position_def
       widget_shown_def [of "p\<lparr>pointing_to := _, has_pointing_to := True\<rparr>"]
       widget_shown_def [of "p\<lparr>preferred_position := _\<rparr>"]
       widget_shown_def [of p]
       split: option.splits)

lemma widget_shown_ops: "widget_shown p \<Longrightarrow> widget_shown (run_ops ops p)"
  by (induction ops arbitrary: p) (simp_all add: widget_shown_op)

text \<open>
  On a popover that went through \<^verbatim>\<open>gtk_popover_init\<close> and any operations since, the
  widget is visible whenever the state is SHOWING or SHOWN.
\<close>

lemma widget_visible_while_shown:
  "state (run_ops ops (gtk_popover_init p)) = STATE_SHOWING \<or>
   state (run_ops ops (gtk_popover_init p)) = STATE_SHOWN \<Longrightarrow>
   widget_visible (run_ops ops (gtk_popover_init p))"
  using widget_shown_ops [OF widget_shown_init, of ops p]
  by (auto simp add: widget_shown_def)

subsection \<open>Popup while a hide transition runs\<close>

lemma set_state_not_showing:
  "st \<noteq> STATE_SHOWING \<Longrightarrow> state (gtk_popover_set_state env p st) \<noteq> STATE_SHOWING"
  by (cases st)
     (auto simp add: gtk_popover_set_state_def gtk_widget_set_visible_def gtk_widget_show_def
       gtk_widget_hide_def Let_def)

lemma widget_hide_not_showing:
  "state p \<noteq> STATE_SHOWING \<Longrightarrow> state (gtk_widget_hide p) \<noteq> STATE_SHOWING"
  by (simp add: gtk_widget_hide_def)

lemma callback_leaves_showing:
  assumes "\<not> fst (show_animate_cb env p f) \<or> state p \<noteq> STATE_SHOWING"
  shows "state (snd (show_animate_cb env p f)) \<noteq> STATE_SHOWING"
proof (cases "fst (show_animate_cb env p f)")
  case True
  with assms show ?thesis
    by (simp add: show_animate_cb_continued)
next
  case False
  then have a: "gtk_progress_tracker_get_state (tracker_after_advance p f) = GTK_PROGRESS_STATE_AFTER"
    by (simp add: show_animate_cb_continues)
  have h: "state p \<noteq> STATE_SHOWING \<Longrightarrow>
           state (gtk_widget_hide (gtk_popover_update_position env (animate_values p f))) \<noteq>
             STATE_SHOWING"
    by (rule widget_hide_not_showing) simp
  show ?thesis
    unfolding show_animate_cb_unfold using a h by (simp add: set_state_not_showing)
qed

lemma callbacks_not_showing:
  "state p \<noteq> STATE_SHOWING \<Longrightarrow> state (run_tick_callbacks env f ids p) \<noteq> STATE_SHOWING"
proof (induction ids arbitrary: p)
  case Nil
  then show ?case by simp
next
  case (Cons i ids)
  have e: "\<And>x. state (gtk_widget_remove_tick_callback x i) = state x"
    by (simp add: gtk_widget_remove_tick_callback_def)
  from callback_leaves_showing [of env p f] Cons.prems
  have "state (snd (show_animate_cb env p f)) \<noteq> STATE_SHOWING" by simp
  with Cons.IH Cons.prems show ?case
    by (simp add: Let_def e)
qed

lemma frames_not_showing:
  "state p \<noteq> STATE_SHOWING \<Longrightarrow> state (run_frames env fs p) \<noteq> STATE_SHOWING"
  by (induction fs arbitrary: p) (simp_all add: frame_tick_def callbacks_not_showing)

lemma still_showing:
  assumes "animating STATE_SHOWING now p" and "\<forall>f \<in> set fs. f \<le> now"
    and "state (run_frames env fs p) = STATE_SHOWING"
  shows "animating STATE_SHOWING now (run_frames env fs p) \<and>
         visible (run_frames env fs p) = visible p \<and>
         closed_emitted (run_frames env fs p) = closed_emitted p"
  using assms
proof (induction fs arbitrary: p)
  case Nil
  then show ?case by simp
next
  case (Cons f fs)
  from Cons.prems(2) have f: "f \<le> now" and fs: "\<forall>g \<in> set fs. g \<le> now" by simp_all
  from Cons.prems(1) have c: "tick_callbacks p = [tick_id p]"
    by (simp add: animating_def)
  have t: "fst (show_animate_cb env p f)"
  proof (rule ccontr)
    assume n: "\<not> fst (show_animate_cb env p f)"
    then have "state (snd (show_animate_cb env p f)) \<noteq> STATE_SHOWING"
      using callback_leaves_showing [of env p f] by simp
    with n have "state (frame_tick env f p) \<noteq> STATE_SHOWING"
      by (simp add: frame_tick_single [OF c] gtk_widget_remove_tick_callback_def)
    from frames_not_showing [OF this, of env fs] Cons.prems(3) show False by simp
  qed
  from animating_continue(1,2,3) [OF Cons.prems(1) f t]
  have "animating STATE_SHOWING now (frame_tick env f p)"
    "visible (frame_tick env f p) = visible p"
    "closed_emitted (frame_tick env f p) = closed_emitted p" by simp_all
  with Cons.IH [OF _ fs, of "frame_tick env f p"] Cons.prems(3) show ?case by simp
qed

lemma popup_while_hiding:
  assumes "animating STATE_HIDING now p" and "transitions_enabled env"
  shows "gtk_popover_popup env p = p\<lparr>state := STATE_SHOWING\<rparr>"
  using assms
  by (simp add: animating_def gtk_popover_popup_def gtk_widget_show_def gtk_popover_set_state_def
      start_transition_running Let_def)

lemma popdown_not_visible:
  assumes "animating STATE_SHOWING now p" and "\<not> visible p" and "transitions_enabled env"
  shows "animating STATE_HIDING now (gtk_popover_popdown env p) \<and>
         \<not> visible (gtk_popover_popdown env p) \<and>
         closed_emitted (gtk_popover_popdown env p) = closed_emitted p"
proof -
  from assms(1) have s: "state p = STATE_SHOWING" and r: "realized p" and t: "tick_id p \<noteq> 0"
    by (simp_all add: animating_def)
  have q: "gtk_popover_popdown env p = p\<lparr>state := STATE_HIDING\<rparr>"
    using s r t assms(2,3)
    by (simp add: popdown_animated start_transition_running hide_internal_idle)
  show ?thesis
    unfolding q using assms(1,2) by (simp add: animating_def)
qed

text \<open>
  A popup issued while a hide transition is still running does not mark the popover
  visible again (the widget is visible, so \<^verbatim>\<open>gtk_widget_show\<close> does not run
  \<^verbatim>\<open>gtk_popover_show\<close>). A popdown before that show transition completes still leads
  to HIDDEN, and nothing more is emitted.
\<close>

lemma popup_while_hiding_ends_hidden:
  assumes "animating STATE_HIDING b p0" and "\<not> visible p0" and "transitions_enabled env"
    and "state (run_frames env fs (gtk_popover_popup env p0)) = STATE_SHOWING"
    and "\<forall>f \<in> set (fs @ gs @ [a]). f \<le> b"
    and "b + TRANSITION_DURATION \<le> c"
  shows "state (run_frames env (gs @ [a, b, c])
            (gtk_popover_popdown env (run_frames env fs (gtk_popover_popup env p0)))) = STATE_HIDDEN \<and>
         closed_emitted (run_frames env (gs @ [a, b, c])
            (gtk_popover_popdown env (run_frames env fs (gtk_popover_popup env p0)))) =
           closed_emitted p0"
proof -
  let ?p1 = "gtk_popover_popup env p0"
  let ?p2 = "run_frames env fs ?p1"
  let ?p3 = "gtk_popover_popdown env ?p2"
  let ?p4 = "run_frames env gs ?p3"
  from assms(5) have fs: "\<forall>f \<in> set fs. f \<le> b" and gs: "\<forall>f \<in> set gs. f \<le> b" and a: "a \<le> b"
    by simp_all
  have p1: "animating STATE_SHOWING b ?p1" "\<not> visible ?p1" "closed_emitted ?p1 = closed_emitted p0"
    using assms(1,2) unfolding popup_while_hiding [OF assms(1,3)]
    by (simp_all add: animating_def)
  from still_showing [OF p1(1) fs assms(4)] p1(2,3)
  have p2: "animating STATE_SHOWING b ?p2" "\<not> visible ?p2" "closed_emitted ?p2 = closed_emitted p0"
    by simp_all
  from popdown_not_visible [OF p2(1,2) assms(3)] p2(3)
  have p3: "animating STATE_HIDING b ?p3" "\<not> visible ?p3" "closed_emitted ?p3 = closed_emitted p0"
    by simp_all
  from hiding_frames [OF p3(1,2) gs, of env] p3(3)
  have p4: "animating STATE_HIDING b ?p4 \<and> \<not> visible ?p4 \<or> resting ?p4"
    "closed_emitted ?p4 = closed_emitted p0" by simp_all
  have r: "run_frames env (gs @ [a, b, c]) ?p3 = run_frames env [a, b, c] ?p4"
    by (simp add: run_frames_append)
  have "resting (run_frames env [a, b, c] ?p4) \<and>
        closed_emitted (run_frames env [a, b, c] ?p4) = closed_emitted p0"
  proof (cases "resting ?p4")
    case True
    from resting_frames [OF True, of env "[a, b, c]"] True p4(2) show ?thesis
      by (simp del: run_frames.simps)
  next
    case False
    with p4(1) have h: "animating STATE_HIDING b ?p4" "\<not> visible ?p4" by simp_all
    from hiding_completes [OF h a order_refl assms(6), of env] p4(2) show ?thesis by simp
  qed
  then show ?thesis
    unfolding r by (simp add: resting_def)
qed

end
